theory Spec2Isabelle
  imports Main "HOL-Library.Log_Nat"
begin

section \<open>Memoix ingredient database builder: the classification engine\<close>

text \<open>
  A shallow embedding of \<^verbatim>\<open>tools/build_ingredients_db.py\<close>. A Python \<^verbatim>\<open>str\<close>
  is modelled as a \<^typ>\<open>string\<close> whose characters are the code points 0 to 255
  (Latin-1), which covers every literal of the rule tables (the two accented keywords
  are written with their code points). \<open>length\<close> then counts what Python's \<^verbatim>\<open>len\<close>
  counts. Code points above 255 are outside the model.
\<close>

subsection \<open>String primitives of the host language\<close>

text \<open>\<^verbatim>\<open>s.startswith(p)\<close>, used to define the substring test.\<close>

fun startswith :: "'a list \<Rightarrow> 'a list \<Rightarrow> bool" where
  "startswith [] s = True"
| "startswith (x # p) [] = False"
| "startswith (x # p) (y # s) = (if x = y then startswith p s else False)"

text \<open>\<^verbatim>\<open>kw in name\<close> on strings: \<open>kw\<close> occurs in \<open>name\<close> as a contiguous block.\<close>

fun str_in :: "'a list \<Rightarrow> 'a list \<Rightarrow> bool" where
  "str_in kw [] = (kw = [])"
| "str_in kw (c # s) = (if startswith kw (c # s) then True else str_in kw s)"

text \<open>\<^verbatim>\<open>str.lower()\<close> on the code points below 256: the ASCII capitals and the
  Latin-1 capitals (all of 192 to 222 but the multiplication sign 215) move up by 32.\<close>

definition lower_char :: "char \<Rightarrow> char" where
  "lower_char c =
     (let n = (of_char c :: nat)
      in if (65 \<le> n \<and> n \<le> 90) \<or> (192 \<le> n \<and> n \<le> 222 \<and> n \<noteq> 215)
         then char_of (n + 32) else c)"

definition lower :: "string \<Rightarrow> string" where
  "lower s = map lower_char s"

text \<open>\<^verbatim>\<open>str.isspace()\<close> on one code point below 256, and \<^verbatim>\<open>str.strip()\<close>.\<close>

definition isspace :: "char \<Rightarrow> bool" where
  "isspace c =
     (let n = (of_char c :: nat)
      in (9 \<le> n \<and> n \<le> 13) \<or> (28 \<le> n \<and> n \<le> 32) \<or> n = 133 \<or> n = 160)"

definition strip :: "string \<Rightarrow> string" where
  "strip s = rev (dropWhile isspace (rev (dropWhile isspace s)))"

text \<open>The class \<^verbatim>\<open>\d\<close> of the regular expression engine on code points below 256.\<close>

definition isdigit :: "char \<Rightarrow> bool" where
  "isdigit c = (let n = (of_char c :: nat) in 48 \<le> n \<and> n \<le> 57)"

text \<open>\<^verbatim>\<open>re.search(r'\d{5,}', name)\<close> as a truth value: the engine tries every start
  position in turn and matches there when at least five digits follow.\<close>

definition match_digits5 :: "string \<Rightarrow> bool" where
  "match_digits5 s = (5 \<le> length (takeWhile isdigit s))"

fun search_digits5 :: "string \<Rightarrow> bool" where
  "search_digits5 [] = False"
| "search_digits5 (c # s) = (if match_digits5 (c # s) then True else search_digits5 s)"

subsection \<open>Category enumeration\<close>

definition CATEGORIES :: "string list" where
  "CATEGORIES = [
    ''produce'', ''meat'', ''poultry'', ''seafood'', ''egg'', ''cheese'',
    ''dairy'', ''grain'', ''pasta'', ''legume'', ''nut'', ''spice'',
    ''condiment'', ''oil'', ''vinegar'', ''flour'', ''sugar'', ''leavening'',
    ''alcohol'', ''pop'', ''juice'', ''beverage'', ''unknown'', ''pantry''
  ]"

text \<open>\<^verbatim>\<open>CAT = {cat: i for i, cat in enumerate(CATEGORIES)}\<close>: the comprehension
  stores the pairs in order, a later one overwriting an earlier one with the same key.\<close>

definition CAT :: "string \<rightharpoonup> nat" where
  "CAT = fold (\<lambda>(i, cat) m. m(cat \<mapsto> i)) (enumerate 0 CATEGORIES) Map.empty"

text \<open>\<^verbatim>\<open>UNKNOWN = CAT["unknown"]\<close>; the key is present, so the lookup does not raise.\<close>

definition UNKNOWN :: nat where
  "UNKNOWN = the (CAT ''unknown'')"

text \<open>\<^verbatim>\<open>CAT.get(cat, UNKNOWN)\<close>.\<close>

definition CAT_get :: "string \<Rightarrow> nat" where
  "CAT_get cat = (case CAT cat of None \<Rightarrow> UNKNOWN | Some i \<Rightarrow> i)"

subsection \<open>Rule tables\<close>

definition KEYWORD_RULES :: "(string list \<times> string) list" where
  "KEYWORD_RULES = [
    ([''stock''], ''pantry''),
    ([''vegetable stock''], ''pantry''),
    ([''chicken stock''], ''pantry''),
    ([''beef stock''], ''pantry''),
    (['']chicken broth''], ''pantry''),
    (['']beef broth''], ''pantry''),
    (['']vegetable broth''], ''pantry''),
    ([''bouillon''], ''pantry''),
    ([''tomato sauce''], ''pantry''),
    ([''tomato puree''], ''pantry''),
    ([''sun-dried tomato''], ''pantry''),
    ([''sundried tomato''], ''pantry''),
    ([''sun dried tomato''], ''pantry''),
    ([''canned tomato''], ''pantry''),
    ([''diced tomato''], ''pantry''),
    ([''crushed tomato''], ''pantry''),
    ([''whole tomato''], ''pantry''),
    ([''roasted pepper''], ''pantry''),
    ([''artichoke heart''], ''pantry''),
    ([''olive''], ''pantry''),
    ([''caper''], ''pantry''),
    ([''pickle''], ''pantry''),
    ([''gherkin''], ''pantry''),
    ([''coconut cream''], ''pantry''),
    ([''coconut milk''], ''pantry''),
    ([''anchovy paste''], ''pantry''),
    ([''chipotle''], ''pantry''),
    ([''harissa''], ''pantry''),
    ([''gochujang''], ''pantry''),
    ([''doubanjiang''], ''pantry''),
    ([''doenjang''], ''pantry''),
    ([''preserved mustard''], ''pantry''),
    ([''sesame paste''], ''pantry''),
    ([''dashi''], ''pantry''),
    ([''bonito''], ''pantry''),
    ([''kombu''], ''pantry''),
    ([''nori''], ''pantry''),
    ([''seaweed''], ''pantry''),
    ([''dried shrimp''], ''pantry''),
    ([''shrimp paste''], ''pantry''),
    ([''fish paste''], ''pantry''),
    ([''curry paste''], ''pantry''),
    ([''bean paste''], ''pantry''),
    ([''chili paste''], ''pantry''),
    ([''miso''], ''pantry''),
    (['']kimchi''], ''pantry''),
    ([''tahini''], ''pantry''),
    ([''pesto''], ''pantry''),
    ([''hoisin''], ''condiment''),
    ([''tomato ketchup''], ''condiment''),
    ([''soy sauce''], ''condiment''),
    ([''fish sauce''], ''condiment''),
    ([''hot sauce''], ''condiment''),
    ([''barbecue sauce''], ''condiment''),
    ([''bbq sauce''], ''condiment''),
    ([''teriyaki''], ''condiment''),
    (['']steak sauce''], ''condiment''),
    ([''hoisin''], ''condiment''),
    ([''oyster sauce''], ''condiment''),
    ([''worcestershire''], ''condiment''),
    ([''sriracha''], ''condiment''),
    ([''mustard''], ''condiment''),
    ([''mayonnaise''], ''condiment''),
    ([''ketchup''], ''condiment''),
    ([''salsa''], ''condiment''),
    ([''pesto''], ''condiment''),
    ([''miso''], ''condiment''),
    ([''tahini''], ''condiment''),
    ([''sambal''], ''condiment''),
    ([''chutney''], ''condiment''),
    ([''relish''], ''condiment''),
    ([''dressing''], ''condiment''),
    ([''peanut butter''], ''pantry''),
    ([''almond butter''], ''pantry''),
    ([''cashew butter''], ''pantry''),
    ([''nutella''], ''pantry''),
    ([''hazelnut spread''], ''pantry''),
    (['']oyster mushroom sauce''], ''pantry''),
    (['']starch water''], ''pantry''),
    (['']stick rice flour''], ''pantry''),
    (['']wakame''], ''pantry''),
    ([''cream cheese''], ''cheese''),
    ([''goat cheese''], ''cheese''),
    ([''blue cheese''], ''cheese''),
    ([''cottage cheese''], ''cheese''),
    ([''almond milk''], ''pantry''),
    ([''oat milk''], ''pantry''),
    ([''soy milk''], ''pantry''),
    ([''olive oil''], ''oil''),
    ([''sesame oil''], ''oil''),
    ([''coconut oil''], ''oil''),
    ([''canola oil''], ''oil''),
    ([''vegetable oil''], ''oil''),
    ([''sunflower oil''], ''oil''),
    ([''avocado oil''], ''oil''),
    ([''truffle oil''], ''oil''),
    ([''balsamic vinegar''], ''vinegar''),
    ([''red wine vinegar''], ''vinegar''),
    ([''white wine vinegar''], ''vinegar''),
    ([''apple cider vinegar''], ''vinegar''),
    ([''rice vinegar''], ''vinegar''),
    ([''sherry vinegar''], ''vinegar''),
    ([''lemon juice''], ''juice''),
    ([''lime juice''], ''juice''),
    ([''orange juice''], ''juice''),
    ([''apple juice''], ''juice''),
    ([''cranberry juice''], ''juice''),
    ([''grapefruit juice''], ''juice''),
    ([''pomegranate juice''], ''juice''),
    ([''maple syrup''], ''sugar''),
    ([''corn syrup''], ''sugar''),
    ([''agave''], ''sugar''),
    ([''molasses''], ''sugar''),
    ([''vanilla extract''], ''sugar''),
    ([''cocoa powder''], ''sugar''),
    ([''baking powder''], ''leavening''),
    ([''baking soda''], ''leavening''),
    ([''bicarbonate''], ''leavening''),
    ([''yeast''], ''leavening''),
    ([''cream of tartar''], ''leavening''),
    ([''gelatin''], ''leavening''),
    ([''agar''], ''leavening''),
    ([''pectin''], ''leavening''),
    ([''bread flour''], ''flour''),
    ([''all-purpose flour''], ''flour''),
    ([''all purpose flour''], ''flour''),
    ([''cake flour''], ''flour''),
    ([''pastry flour''], ''flour''),
    ([''self-raising flour''], ''flour''),
    ([''self raising flour''], ''flour''),
    ([''whole wheat flour''], ''flour''),
    ([''vital wheat gluten''], ''flour''),
    ([''wheat gluten''], ''flour''),
    ([''vital gluten''], ''flour''),
    (['']shortening''], ''flour''),
    (['']cornstarch''], ''flour''),
    ([''corn starch''], ''flour''),
    ([''cornflour''], ''flour''),
    ([''almond flour''], ''flour''),
    ([''rice flour''], ''flour''),
    ([''tapioca''], ''flour''),
    ([''arrowroot''], ''flour''),
    ([''semolina''], ''flour''),
    ([''brown sugar''], ''sugar''),
    ([''powdered sugar''], ''sugar''),
    ([''icing sugar''], ''sugar''),
    ([''confectioner''], ''sugar''),
    ([''demerara''], ''sugar''),
    ([''turbinado''], ''sugar''),
    ([''muscovado''], ''sugar''),
    ([''caster sugar''], ''sugar''),
    ([''granulated sugar''], ''sugar''),
    ([''dark chocolate''], ''sugar''),
    ([''white chocolate''], ''sugar''),
    ([''milk chocolate''], ''sugar''),
    ([''chocolate chip''], ''sugar''),
    ([''ground beef''], ''meat''),
    ([''ground pork''], ''meat''),
    ([''ground turkey''], ''poultry''),
    ([''ground chicken''], ''poultry''),
    ([''sweet potato''], ''produce''),
    ([''green bean''], ''produce''),
    ([''bell pepper''], ''produce''),
    ([''banana''], ''produce''),
    ([''strawberry''], ''produce''),
    ([''blueberry''], ''produce''),
    ([''raspberry''], ''produce''),
    ([''blackberry''], ''produce''),
    ([''grape''], ''produce''),
    ([''peach''], ''produce''),
    ([''pear''], ''produce''),
    ([''cherry''], ''produce''),
    ([''plum''], ''produce''),
    ([''watermelon''], ''produce''),
    ([''cantaloupe''], ''produce''),
    ([''honeydew''], ''produce''),
    ([''mango''], ''produce''),
    ([''pineapple''], ''produce''),
    ([''kiwi''], ''produce''),
    ([''papaya''], ''produce''),
    ([''ya cai''], ''produce''),
    ([''leek''], ''produce''),
    ([''shiitake''], ''produce''),
    ([''enoki''], ''produce''),
    ([''portobello''], ''produce''),
    ([''bok choy''], ''produce''),
    ([''napa cabbage''], ''produce''),
    ([''radish''], ''produce''),
    ([''turnip''], ''produce''),
    ([''beet''], ''produce''),
    ([''watercress''], ''produce''),
    ([''arugula''], ''produce''),
    ([''endive''], ''produce''),
    ([''radicchio''], ''produce''),
    ([''rhubarb''], ''produce''),
    ([''plantain''], ''produce''),
    ([''fig''], ''produce''),
    ([''guava''], ''produce''),
    ([''lemon zest''], ''produce''),
    ([''lime zest''], ''produce''),
    ([''orange zest''], ''produce''),
    ([''black bean''], ''legume''),
    ([''kidney bean''], ''legume''),
    ([''pinto bean''], ''legume''),
    ([''navy bean''], ''legume''),
    ([''chickpea''], ''legume''),
    ([''lentil''], ''legume''),
    ([''pine nut''], ''nut''),
    ([''sesame seed''], ''nut''),
    ([''sunflower seed''], ''nut''),
    ([''pumpkin seed''], ''nut''),
    ([''poppy seed''], ''nut''),
    ([''flax seed''], ''nut''),
    ([''chia seed''], ''nut''),
    ([''red wine''], ''alcohol''),
    ([''white wine''], ''alcohol''),
    ([''rice wine''], ''alcohol''),
    ([''kosher salt''], ''spice''),
    ([''sea salt''], ''spice''),
    ([''maldon salt''], ''spice''),
    ([''fine salt''], ''spice''),
    ([''table salt''], ''spice''),
    ([''fleur de sel''], ''spice''),
    ([''black pepper''], ''spice''),
    ([''white pepper''], ''spice''),
    ([''cayenne pepper''], ''spice''),
    ([''chili flake''], ''spice''),
    ([''red pepper flake''], ''spice''),
    ([''chili powder''], ''spice''),
    ([''curry powder''], ''spice''),
    ([''garam masala''], ''spice''),
    ([''italian seasoning''], ''spice''),
    ([''five spice''], ''spice''),
    ([''onion powder''], ''spice''),
    ([''garlic powder''], ''spice''),
    ([''heavy cream''], ''dairy''),
    ([''whipping cream''], ''dairy''),
    ([''sour cream''], ''dairy''),
    ([''half and half''], ''dairy''),
    ([(''cr'' @ [CHR 0xE8] @ ''me fra'' @ [CHR 0xEE] @ ''che'')], ''dairy''),
    ([''creme fraiche''], ''dairy''),
    ([''evaporated milk''], ''dairy''),
    ([''condensed milk''], ''dairy''),
    ([''buttermilk''], ''dairy''),
    ([''wine''], ''alcohol''),
    ([''beer''], ''alcohol''),
    ([''ale''], ''alcohol''),
    ([''lager''], ''alcohol''),
    ([''stout''], ''alcohol''),
    ([''brandy''], ''alcohol''),
    ([''cognac''], ''alcohol''),
    ([''rum''], ''alcohol''),
    ([''vodka''], ''alcohol''),
    ([''whiskey''], ''alcohol''),
    ([''whisky''], ''alcohol''),
    ([''bourbon''], ''alcohol''),
    ([''tequila''], ''alcohol''),
    ([''gin''], ''alcohol''),
    ([''sake''], ''alcohol''),
    ([''mirin''], ''alcohol''),
    ([''sherry''], ''alcohol''),
    ([''port''], ''alcohol''),
    ([''marsala''], ''alcohol''),
    ([''kahlua''], ''alcohol''),
    ([''amaretto''], ''alcohol''),
    ([''grappa''], ''alcohol''),
    ([''absinthe''], ''alcohol''),
    ([''vermouth''], ''alcohol''),
    ([''champagne''], ''alcohol''),
    ([''prosecco''], ''alcohol''),
    ([''cider''], ''alcohol''),
    ([''mead''], ''alcohol''),
    ([''liqueur''], ''alcohol''),
    ([''campari''], ''alcohol''),
    ([''aperol''], ''alcohol''),
    ([''cointreau''], ''alcohol''),
    ([''grand marnier''], ''alcohol''),
    ([''triple sec''], ''alcohol''),
    ([''limoncello''], ''alcohol''),
    ([''chartreuse''], ''alcohol''),
    ([''cola''], ''pop''),
    ([''soda''], ''pop''),
    ([''tonic''], ''pop''),
    ([''sprite''], ''pop''),
    ([''ginger ale''], ''pop''),
    ([''coffee''], ''beverage''),
    ([''tea''], ''beverage''),
    ([''broth''], ''beverage''),
    ([''stock''], ''beverage''),
    ([''water''], ''beverage''),
    ([''juice''], ''juice''),
    ([''beef''], ''meat''),
    ([''steak''], ''meat''),
    ([''pork''], ''meat''),
    ([''bacon''], ''meat''),
    ([''ham''], ''meat''),
    ([''prosciutto''], ''meat''),
    ([''pancetta''], ''meat''),
    ([''guanciale''], ''meat''),
    ([''chorizo''], ''meat''),
    ([''sausage''], ''meat''),
    ([''salami''], ''meat''),
    ([''pepperoni''], ''meat''),
    ([''lamb''], ''meat''),
    ([''veal''], ''meat''),
    ([''venison''], ''meat''),
    ([''bison''], ''meat''),
    ([''rabbit''], ''meat''),
    ([''lardon''], ''meat''),
    ([''bresaola''], ''meat''),
    ([''nduja''], ''meat''),
    ([''short ribs''], ''meat''),
    ([''slab ribs''], ''meat''),
    ([''spare ribs''], ''meat''),
    ([''beef ribs''], ''meat''),
    ([''pork ribs''], ''meat''),
    ([''oxtail''], ''meat''),
    ([''tongue''], ''meat''),
    ([''liver''], ''meat''),
    ([''kidney''], ''meat''),
    ([''heart''], ''meat''),
    ([''offal''], ''meat''),
    ([''chicken''], ''poultry''),
    ([''turkey''], ''poultry''),
    ([''duck''], ''poultry''),
    ([''goose''], ''poultry''),
    ([''quail''], ''poultry''),
    ([''salmon''], ''seafood''),
    ([''tuna''], ''seafood''),
    ([''shrimp''], ''seafood''),
    ([''prawn''], ''seafood''),
    ([''crab''], ''seafood''),
    ([''lobster''], ''seafood''),
    ([''scallop''], ''seafood''),
    ([''mussel''], ''seafood''),
    ([''clam''], ''seafood''),
    ([''oyster''], ''seafood''),
    ([''anchovy''], ''seafood''),
    ([''sardine''], ''seafood''),
    ([''cod''], ''seafood''),
    ([''halibut''], ''seafood''),
    ([''tilapia''], ''seafood''),
    ([''trout''], ''seafood''),
    ([''bass''], ''seafood''),
    ([''mackerel''], ''seafood''),
    ([''squid''], ''seafood''),
    ([''calamari''], ''seafood''),
    ([''octopus''], ''seafood''),
    ([''fish''], ''seafood''),
    ([''seafood''], ''seafood''),
    ([''crustacean''], ''seafood''),
    ([''egg''], ''egg''),
    ([''cheese''], ''cheese''),
    ([''cheddar''], ''cheese''),
    ([''parmesan''], ''cheese''),
    ([''parmigiano''], ''cheese''),
    ([''mozzarella''], ''cheese''),
    ([''gruyere''], ''cheese''),
    ([(''gruy'' @ [CHR 0xE8] @ ''re'')], ''cheese''),
    ([''feta''], ''cheese''),
    ([''brie''], ''cheese''),
    ([''camembert''], ''cheese''),
    ([''gouda''], ''cheese''),
    ([''ricotta''], ''cheese''),
    ([''mascarpone''], ''cheese''),
    ([''pecorino''], ''cheese''),
    ([''emmental''], ''cheese''),
    ([''havarti''], ''cheese''),
    ([''provolone''], ''cheese''),
    ([''halloumi''], ''cheese''),
    ([''burrata''], ''cheese''),
    ([''paneer''], ''cheese''),
    ([''manchego''], ''cheese''),
    ([''roquefort''], ''cheese''),
    ([''gorgonzola''], ''cheese''),
    ([''stilton''], ''cheese''),
    ([''milk''], ''dairy''),
    ([''butter''], ''dairy''),
    ([''cream''], ''dairy''),
    ([''yogurt''], ''dairy''),
    ([''yoghurt''], ''dairy''),
    ([''dairy''], ''dairy''),
    ([''ghee''], ''dairy''),
    ([''rice''], ''grain''),
    ([''bread''], ''grain''),
    ([''sourdough''], ''grain''),
    ([''brioche''], ''grain''),
    ([''ciabatta''], ''grain''),
    ([''focaccia''], ''grain''),
    ([''pita''], ''grain''),
    ([''naan''], ''grain''),
    ([''baguette''], ''grain''),
    ([''oat''], ''grain''),
    ([''quinoa''], ''grain''),
    ([''barley''], ''grain''),
    ([''couscous''], ''grain''),
    ([''bulgur''], ''grain''),
    ([''millet''], ''grain''),
    ([''polenta''], ''grain''),
    ([''grits''], ''grain''),
    ([''breadcrumb''], ''grain''),
    ([''panko''], ''grain''),
    ([''tortilla''], ''grain''),
    ([''cracker''], ''grain''),
    ([''cereal''], ''grain''),
    ([''granola''], ''grain''),
    ([''pasta''], ''pasta''),
    ([''spaghetti''], ''pasta''),
    ([''penne''], ''pasta''),
    ([''rigatoni''], ''pasta''),
    ([''linguine''], ''pasta''),
    ([''fettuccine''], ''pasta''),
    ([''noodle''], ''pasta''),
    ([''lasagna''], ''pasta''),
    ([''lasagne''], ''pasta''),
    ([''macaroni''], ''pasta''),
    ([''orzo''], ''pasta''),
    ([''fusilli''], ''pasta''),
    ([''farfalle''], ''pasta''),
    ([''tagliatelle''], ''pasta''),
    ([''gnocchi''], ''pasta''),
    ([''ramen''], ''pasta''),
    ([''udon''], ''pasta''),
    ([''soba''], ''pasta''),
    ([''vermicelli''], ''pasta''),
    ([''ravioli''], ''pasta''),
    ([''tortellini''], ''pasta''),
    ([''bean''], ''legume''),
    ([''lentil''], ''legume''),
    ([''chickpea''], ''legume''),
    ([''tofu''], ''dairy''),
    ([''tempeh''], ''legume''),
    ([''edamame''], ''legume''),
    ([''almond''], ''nut''),
    ([''walnut''], ''nut''),
    ([''pecan''], ''nut''),
    ([''cashew''], ''nut''),
    ([''pistachio''], ''nut''),
    ([''peanut''], ''nut''),
    ([''hazelnut''], ''nut''),
    ([''macadamia''], ''nut''),
    ([''chestnut''], ''nut''),
    ([''coconut''], ''nut''),
    ([''salt''], ''spice''),
    ([''pepper''], ''spice''),
    ([''cumin''], ''spice''),
    ([''paprika''], ''spice''),
    ([''cayenne''], ''spice''),
    ([''cinnamon''], ''spice''),
    ([''nutmeg''], ''spice''),
    ([''oregano''], ''spice''),
    ([''turmeric''], ''spice''),
    ([''coriander''], ''spice''),
    ([''cardamom''], ''spice''),
    ([''clove''], ''spice''),
    ([''allspice''], ''spice''),
    ([''saffron''], ''spice''),
    ([''anise''], ''spice''),
    ([''fennel''], ''spice''),
    (['']tsaoko''], ''spice''),
    ([''dill''], ''spice''),
    ([''thyme''], ''spice''),
    ([''rosemary''], ''spice''),
    ([''sage''], ''spice''),
    ([''basil''], ''spice''),
    ([''parsley''], ''spice''),
    ([''cilantro''], ''spice''),
    ([''mint''], ''spice''),
    ([''tarragon''], ''spice''),
    ([''chive''], ''spice''),
    ([''bay leaf''], ''spice''),
    ([''bay leaves''], ''spice''),
    ([''marjoram''], ''spice''),
    ([''five spice''], ''spice''),
    ([''gochugaru''], ''spice''),
    ([''sumac''], ''spice''),
    ([''zaatar''], ''spice''),
    ([(''za'' @ [CHR 0x27] @ ''atar'')], ''spice''),
    ([''lemongrass''], ''spice''),
    ([''fenugreek''], ''spice''),
    ([''msg''], ''spice''),
    ([''spice''], ''spice''),
    ([''seasoning''], ''spice''),
    ([''herb''], ''spice''),
    ([''sauce''], ''condiment''),
    ([''paste''], ''condiment''),
    ([''marinade''], ''condiment''),
    ([''glaze''], ''condiment''),
    ([''oil''], ''oil''),
    ([''vinegar''], ''vinegar''),
    ([''flour''], ''flour''),
    ([''starch''], ''flour''),
    ([''sugar''], ''sugar''),
    ([''honey''], ''sugar''),
    ([''syrup''], ''sugar''),
    ([''chocolate''], ''sugar''),
    ([''candy''], ''sugar''),
    ([''caramel''], ''sugar''),
    ([''jam''], ''sugar''),
    ([''jelly''], ''sugar''),
    ([''marmalade''], ''sugar''),
    ([''vanilla''], ''sugar'')
  ]"
definition OFF_CATEGORY_MAP :: "(string \<times> string option) list" where
  "OFF_CATEGORY_MAP = [
    (''plant-based'', None),
    (''breakfast cereal'', Some ''grain''),
    (''ice cream'', Some ''dairy''),
    (''frozen meal'', None),
    (''ready meal'', None),
    (''meat'', Some ''meat''),
    (''ham'', Some ''meat''),
    (''beef'', Some ''meat''),
    (''pork'', Some ''meat''),
    (''sausage'', Some ''meat''),
    (''deli'', Some ''meat''),
    (''poultry'', Some ''poultry''),
    (''chicken'', Some ''poultry''),
    (''turkey'', Some ''poultry''),
    (''fish'', Some ''seafood''),
    (''seafood'', Some ''seafood''),
    (''crustacean'', Some ''seafood''),
    (''cheese'', Some ''cheese''),
    (''dairy'', Some ''dairy''),
    (''milk'', Some ''dairy''),
    (''butter'', Some ''dairy''),
    (''cream'', Some ''dairy''),
    (''yogurt'', Some ''dairy''),
    (''egg'', Some ''egg''),
    (''bread'', Some ''grain''),
    (''cereal'', Some ''grain''),
    (''rice'', Some ''grain''),
    (''grain'', Some ''grain''),
    (''pasta'', Some ''pasta''),
    (''noodle'', Some ''pasta''),
    (''legume'', Some ''legume''),
    (''bean'', Some ''legume''),
    (''lentil'', Some ''legume''),
    (''nut'', Some ''nut''),
    (''seed'', Some ''nut''),
    (''spice'', Some ''spice''),
    (''herb'', Some ''spice''),
    (''seasoning'', Some ''spice''),
    (''sauce'', Some ''condiment''),
    (''condiment'', Some ''condiment''),
    (''dressing'', Some ''condiment''),
    (''mustard'', Some ''condiment''),
    (''ketchup'', Some ''condiment''),
    (''oil'', Some ''oil''),
    (''vinegar'', Some ''vinegar''),
    (''flour'', Some ''flour''),
    (''sugar'', Some ''sugar''),
    (''sweetener'', Some ''sugar''),
    (''honey'', Some ''sugar''),
    (''syrup'', Some ''sugar''),
    (''chocolate'', Some ''sugar''),
    (''candy'', Some ''sugar''),
    (''confectionery'', Some ''sugar''),
    (''baking'', Some ''leavening''),
    (''alcohol'', Some ''alcohol''),
    (''wine'', Some ''alcohol''),
    (''beer'', Some ''alcohol''),
    (''spirit'', Some ''alcohol''),
    (''soda'', Some ''pop''),
    (''soft drink'', Some ''pop''),
    (''juice'', Some ''juice''),
    (''coffee'', Some ''beverage''),
    (''tea'', Some ''beverage''),
    (''water'', Some ''beverage''),
    (''beverage'', Some ''beverage''),
    (''drink'', Some ''beverage''),
    (''snack'', None),
    (''frozen'', None),
    (''canned'', None)
  ]"

subsection \<open>Matchers\<close>

text \<open>The loop of \<^verbatim>\<open>classify_by_name\<close> over a rule table: the first rule all of whose
  keywords are \<^verbatim>\<open>in\<close> the name returns its category.\<close>

fun classify_by_name_rules :: "(string list \<times> string) list \<Rightarrow> string \<Rightarrow> string option" where
  "classify_by_name_rules [] name = None"
| "classify_by_name_rules ((keywords, category) # rules) name =
     (if list_all (\<lambda>kw. str_in kw name) keywords then Some category
      else classify_by_name_rules rules name)"

definition classify_by_name :: "string \<Rightarrow> string option" where
  "classify_by_name name = classify_by_name_rules KEYWORD_RULES name"

text \<open>The loop of \<^verbatim>\<open>classify_by_off_category\<close> over a rule table, and the function
  itself with its guard on the empty text.\<close>

fun classify_by_off_category_rules ::
  "(string \<times> string option) list \<Rightarrow> string \<Rightarrow> string option" where
  "classify_by_off_category_rules [] off_cat = None"
| "classify_by_off_category_rules ((keyword, category) # rules) off_cat =
     (if str_in keyword off_cat then category
      else classify_by_off_category_rules rules off_cat)"

definition classify_by_off_category_in ::
  "(string \<times> string option) list \<Rightarrow> string \<Rightarrow> string option" where
  "classify_by_off_category_in rules off_cat =
     (if off_cat = [] then None else classify_by_off_category_rules rules off_cat)"

definition classify_by_off_category :: "string \<Rightarrow> string option" where
  "classify_by_off_category off_cat = classify_by_off_category_in OFF_CATEGORY_MAP off_cat"

subsection \<open>Ingredient filter\<close>

definition skip_words :: "string list" where
  "skip_words = [
    ''pizza'', ''sandwich'', ''burger'', ''wrap'', ''meal kit'',
    ''ready to eat'', ''frozen dinner'', ''tv dinner'', ''microwave'', ''instant'',
    ''protein bar'', ''energy bar'', ''snack bar'', ''chips'', ''crisps'',
    ''cookie'', ''biscuit'', ''crouton'', ''popcorn'', ''pretzel''
  ]"

text \<open>The loop \<^verbatim>\<open>for w in skip_words: if w in name: return False\<close>, as the truth value
  "some word is in the name".\<close>

fun any_word_in :: "string list \<Rightarrow> string \<Rightarrow> bool" where
  "any_word_in [] name = False"
| "any_word_in (w # ws) name = (if str_in w name then True else any_word_in ws name)"

definition is_culinary_ingredient :: "string \<Rightarrow> string \<Rightarrow> string \<Rightarrow> bool" where
  "is_culinary_ingredient name off_cat tags =
     (if length name > 60 then False
      else if search_digits5 name then False
      else if any_word_in skip_words name then False
      else True)"


subsection \<open>Category resolution of one row\<close>

text \<open>Lines 780 to 785 of \<^verbatim>\<open>build_database\<close>: the name first, then the primary
  category field, then the tags field. The tables are arguments here; the program uses
  its two constant tables.\<close>

definition resolve_category_with ::
  "(string list \<times> string) list \<Rightarrow> (string \<times> string option) list \<Rightarrow>
   string \<Rightarrow> string \<Rightarrow> string \<Rightarrow> string option" where
  "resolve_category_with kr om name off_cat tags =
     (let cat = classify_by_name_rules kr name;
          cat = (if cat = None then classify_by_off_category_in om off_cat else cat);
          cat = (if cat = None then classify_by_off_category_in om tags else cat)
      in cat)"

definition resolve_category :: "string \<Rightarrow> string \<Rightarrow> string \<Rightarrow> string option" where
  "resolve_category name off_cat tags =
     resolve_category_with KEYWORD_RULES OFF_CATEGORY_MAP name off_cat tags"

subsection \<open>Floating-point numbers of the host language\<close>

text \<open>
  The metadata part of \<^verbatim>\<open>build_database\<close> calls \<^verbatim>\<open>float\<close> and \<^verbatim>\<open>round\<close>. A float
  is modelled by the exact rational value of the binary64 number, or one of the three
  special values; negative zero is identified with zero. The two exceptions that these
  calls can raise are the values of \<open>error\<close>.
\<close>

datatype error = ValueError | OverflowError

datatype pyfloat = Finite rat | PInf | NInf | NaN

text \<open>Rounding to the nearest integer, a tie going to the even neighbour.\<close>

definition round_half_even :: "rat \<Rightarrow> int" where
  "round_half_even q =
     (let f = \<lfloor>q\<rfloor>; d = q - of_int f
      in if d < 1 / 2 then f
         else if 1 / 2 < d then f + 1
         else if even f then f else f + 1)"

text \<open>For \<open>0 < q\<close>, the exponent \<open>e\<close> with \<open>2 ^ e \<le> q < 2 ^ (e + 1)\<close>.\<close>

definition floor_log2 :: "rat \<Rightarrow> int" where
  "floor_log2 q =
     (let (p, d) = quotient_of q; e = bitlen p - bitlen d
      in if 2 powi e \<le> q then e else e - 1)"

text \<open>The binary64 number nearest to a rational (ties to even): 53 significant bits,
  the least exponent of a unit in the last place is -1074, and a result of magnitude
  \<open>2 ^ 1024\<close> or more is an infinity.\<close>

definition to_double :: "rat \<Rightarrow> pyfloat" where
  "to_double q =
     (if q = 0 then Finite 0
      else let a = \<bar>q\<bar>;
               sh = max (floor_log2 a - 52) (- 1074);
               v = of_int (round_half_even (a / 2 powi sh)) * 2 powi sh
           in if 2 powi 1024 \<le> v then (if q < 0 then NInf else PInf)
              else Finite (if q < 0 then - v else v))"

text \<open>\<^verbatim>\<open>float(s)\<close> on a string. The interpreter first replaces every space above
  code point 127 by a blank and every other character from 127 on by a question mark
  (which no later step accepts).\<close>

definition float_transform :: "string \<Rightarrow> string" where
  "float_transform s =
     map (\<lambda>c. if (of_char c :: nat) < 127 then c
              else if isspace c then CHR '' '' else CHR ''?'') s"

text \<open>Underscores: each must stand between two digits, and is then dropped. The first
  argument is the previous character (initially the null character).\<close>

fun drop_underscores :: "char \<Rightarrow> string \<Rightarrow> string option" where
  "drop_underscores prev [] = (if prev = CHR ''_'' then None else Some [])"
| "drop_underscores prev (c # s) =
     (if c = CHR ''_''
      then (if isdigit prev then drop_underscores c s else None)
      else if prev = CHR ''_'' \<and> \<not> isdigit c then None
      else map_option ((#) c) (drop_underscores c s))"

text \<open>The blanks that \<^verbatim>\<open>float\<close> strips at both ends are the six ASCII ones.\<close>

definition is_ascii_space :: "char \<Rightarrow> bool" where
  "is_ascii_space c = (let n = (of_char c :: nat) in (9 \<le> n \<and> n \<le> 13) \<or> n = 32)"

definition float_strip :: "string \<Rightarrow> string" where
  "float_strip s = rev (dropWhile is_ascii_space (rev (dropWhile is_ascii_space s)))"

definition parse_sign :: "string \<Rightarrow> bool \<times> string" where
  "parse_sign s =
     (case s of
        [] \<Rightarrow> (False, [])
      | c # r \<Rightarrow> if c = CHR ''-'' then (True, r)
                else if c = CHR ''+'' then (False, r) else (False, s))"

definition digit_val :: "char \<Rightarrow> nat" where
  "digit_val c = of_char c - 48"

definition digits_val :: "string \<Rightarrow> nat" where
  "digits_val ds = foldl (\<lambda>n c. 10 * n + digit_val c) 0 ds"

text \<open>The exponent part: empty, or \<open>e\<close> or \<open>E\<close>, an optional sign and at least one
  digit up to the end of the string.\<close>

definition parse_exponent :: "string \<Rightarrow> int option" where
  "parse_exponent s =
     (case s of
        [] \<Rightarrow> Some 0
      | c # r \<Rightarrow>
          if c = CHR ''e'' \<or> c = CHR ''E''
          then (let (neg, ds) = parse_sign r
                in if ds \<noteq> [] \<and> list_all isdigit ds
                   then Some (if neg then - int (digits_val ds) else int (digits_val ds))
                   else None)
          else None)"

text \<open>A decimal number without its sign: digits, an optional point with digits, at
  least one digit in all, and the exponent part. The value is exact.\<close>

definition parse_number :: "string \<Rightarrow> rat option" where
  "parse_number s =
     (let ip = takeWhile isdigit s; r1 = dropWhile isdigit s;
          has_point = (r1 \<noteq> [] \<and> hd r1 = CHR ''.'');
          fp = (if has_point then takeWhile isdigit (tl r1) else []);
          r2 = (if has_point then dropWhile isdigit (tl r1) else r1)
      in if ip = [] \<and> fp = [] then None
         else case parse_exponent r2 of
                None \<Rightarrow> None
              | Some e \<Rightarrow>
                  Some (of_nat (digits_val (ip @ fp)) * 10 powi (e - int (length fp))))"

definition float_inner :: "string \<Rightarrow> error + pyfloat" where
  "float_inner s =
     (let (neg, r) = parse_sign (float_strip s)
      in if lower r = ''inf'' \<or> lower r = ''infinity'' then Inr (if neg then NInf else PInf)
         else if lower r = ''nan'' then Inr NaN
         else case parse_number r of
                None \<Rightarrow> Inl ValueError
              | Some q \<Rightarrow> Inr (to_double (if neg then - q else q)))"

definition py_float :: "string \<Rightarrow> error + pyfloat" where
  "py_float s =
     (let t = float_transform s
      in if CHR ''_'' \<in> set t
         then (case drop_underscores (CHR 0x00) t of
                 None \<Rightarrow> Inl ValueError
               | Some u \<Rightarrow> float_inner u)
         else float_inner t)"

text \<open>\<^verbatim>\<open>round(x)\<close> gives an integer and raises on the special values;
  \<^verbatim>\<open>round(x, ndigits)\<close> with \<open>ndigits\<close> 1 or 3 gives a float and returns the special
  values as they are.\<close>

definition py_round :: "pyfloat \<Rightarrow> error + int" where
  "py_round x =
     (case x of
        Finite q \<Rightarrow> Inr (round_half_even q)
      | PInf \<Rightarrow> Inl OverflowError
      | NInf \<Rightarrow> Inl OverflowError
      | NaN \<Rightarrow> Inl ValueError)"

definition py_round_ndigits :: "pyfloat \<Rightarrow> nat \<Rightarrow> pyfloat" where
  "py_round_ndigits x ndigits =
     (case x of
        Finite q \<Rightarrow> to_double (of_int (round_half_even (q * 10 ^ ndigits)) / 10 ^ ndigits)
      | PInf \<Rightarrow> PInf
      | NInf \<Rightarrow> NInf
      | NaN \<Rightarrow> NaN)"

subsection \<open>Rows, metadata and the run state\<close>

text \<open>
  A row of the reader is a dictionary from column names to strings; a column that is
  absent, or present with the value \<^verbatim>\<open>None\<close>, is no entry of the map. Both
  \<^verbatim>\<open>(row.get(k, '') or '')\<close> and \<^verbatim>\<open>row.get(k, '')\<close> followed by a truth test read
  the row through \<open>row_get\<close>.
\<close>

type_synonym row = "string \<rightharpoonup> string"

definition row_get :: "row \<Rightarrow> string \<Rightarrow> string" where
  "row_get row key = (case row key of None \<Rightarrow> [] | Some v \<Rightarrow> v)"

text \<open>The metadata dictionary of one product: a key that is not set is \<open>None\<close>.\<close>

record meta =
  cat :: nat
  vegan :: "bool option"
  vegetarian :: "bool option"
  allergens :: "string option"
  kcal :: "int option"
  protein :: "pyfloat option"
  carbs :: "pyfloat option"
  fat :: "pyfloat option"
  fiber :: "pyfloat option"
  sodium :: "pyfloat option"

text \<open>The local state of \<^verbatim>\<open>build_database\<close>; \<open>meta_db\<close> is \<^verbatim>\<open>None\<close> when no metadata
  is generated.\<close>

record state =
  category_db :: "string \<rightharpoonup> nat"
  meta_db :: "(string \<rightharpoonup> meta) option"
  skipped :: nat
  classified :: nat
  unclassified :: nat

text \<open>\<^verbatim>\<open>try: ... except ValueError: pass\<close> around the computation of one value: a
  \<^verbatim>\<open>ValueError\<close> leaves the key unset, any other exception propagates.\<close>

definition except_ValueError :: "error + 'a \<Rightarrow> error + 'a option" where
  "except_ValueError r =
     (case r of
        Inl ValueError \<Rightarrow> Inr None
      | Inl OverflowError \<Rightarrow> Inl OverflowError
      | Inr v \<Rightarrow> Inr (Some v))"

text \<open>\<^verbatim>\<open>if kcal: try: meta['kcal'] = round(float(kcal)) ...\<close>\<close>

definition kcal_field :: "string \<Rightarrow> error + int option" where
  "kcal_field s =
     (if s = [] then Inr None
      else except_ValueError
             (case py_float s of Inl e \<Rightarrow> Inl e | Inr x \<Rightarrow> py_round x))"

text \<open>\<^verbatim>\<open>if protein: try: meta['protein'] = round(float(protein), 1) ...\<close>, and the same
  for the other fields that are rounded to a number of decimals.\<close>

definition decimal_field :: "nat \<Rightarrow> string \<Rightarrow> error + pyfloat option" where
  "decimal_field ndigits s =
     (if s = [] then Inr None
      else except_ValueError
             (case py_float s of Inl e \<Rightarrow> Inl e | Inr x \<Rightarrow> Inr (py_round_ndigits x ndigits)))"

text \<open>Lines 801 to 856: the metadata of a classified row. The fields are computed in
  the order of the source, and the first exception that is not caught ends the
  computation.\<close>

definition build_meta :: "row \<Rightarrow> nat \<Rightarrow> error + meta" where
  "build_meta row cat_index =
     (let labels = lower (row_get row ''labels_en'');
          is_vegan = str_in ''vegan'' labels;
          is_vegetarian = str_in ''vegetarian'' labels;
          allergens_text = strip (row_get row ''allergens_en'')
      in case kcal_field (row_get row ''energy-kcal_100g'') of Inl e \<Rightarrow> Inl e | Inr k \<Rightarrow>
         case decimal_field 1 (row_get row ''proteins_100g'') of Inl e \<Rightarrow> Inl e | Inr p \<Rightarrow>
         case decimal_field 1 (row_get row ''carbohydrates_100g'') of Inl e \<Rightarrow> Inl e | Inr c \<Rightarrow>
         case decimal_field 1 (row_get row ''fat_100g'') of Inl e \<Rightarrow> Inl e | Inr f \<Rightarrow>
         case decimal_field 1 (row_get row ''fiber_100g'') of Inl e \<Rightarrow> Inl e | Inr fi \<Rightarrow>
         case decimal_field 3 (row_get row ''sodium_100g'') of Inl e \<Rightarrow> Inl e | Inr so \<Rightarrow>
           Inr \<lparr>cat = cat_index,
                vegan = (if is_vegan then Some True else None),
                vegetarian = (if is_vegan then None
                              else if is_vegetarian then Some True else None),
                allergens = (if allergens_text = [] then None else Some allergens_text),
                kcal = k, protein = p, carbs = c, fat = f, fiber = fi, sodium = so\<rparr>)"

subsection \<open>The classification pipeline\<close>

text \<open>Lines 763, 768 and 769: the three normalised fields of a row.\<close>

definition row_name :: "row \<Rightarrow> string" where
  "row_name row = strip (lower (row_get row ''product_name''))"

definition row_off_cat :: "row \<Rightarrow> string" where
  "row_off_cat row = lower (row_get row ''main_category_en'')"

definition row_tags :: "row \<Rightarrow> string" where
  "row_tags row = lower (row_get row ''categories_tags'')"

text \<open>The body of the loop over the rows (lines 763 to 858), with the two rule tables
  as arguments. The result is the state after the row, or the exception that leaves
  \<^verbatim>\<open>build_database\<close>.\<close>

definition process_row_with ::
  "(string list \<times> string) list \<Rightarrow> (string \<times> string option) list \<Rightarrow>
   state \<Rightarrow> row \<Rightarrow> error + state" where
  "process_row_with kr om st row =
     (let name = row_name row
      in if name = [] \<or> length name < 2 then Inr (st\<lparr>skipped := skipped st + 1\<rparr>)
         else
           let off_cat = row_off_cat row;
               tags = row_tags row
           in if is_culinary_ingredient name off_cat tags
              then (case resolve_category_with kr om name off_cat tags of
                      None \<Rightarrow> Inr (st\<lparr>unclassified := unclassified st + 1\<rparr>)
                    | Some category \<Rightarrow>
                        let cat_index = CAT_get category
                        in if cat_index = UNKNOWN
                           then Inr (st\<lparr>unclassified := unclassified st + 1\<rparr>)
                           else
                             let st1 = st\<lparr>category_db := (category_db st)(name \<mapsto> cat_index),
                                          classified := classified st + 1\<rparr>
                             in (case meta_db st1 of
                                   None \<Rightarrow> Inr st1
                                 | Some mdb \<Rightarrow>
                                     (case build_meta row cat_index of
                                        Inl e \<Rightarrow> Inl e
                                      | Inr m \<Rightarrow> Inr (st1\<lparr>meta_db := Some (mdb(name \<mapsto> m))\<rparr>))))
              else Inr (st\<lparr>skipped := skipped st + 1\<rparr>))"

definition process_row :: "state \<Rightarrow> row \<Rightarrow> error + state" where
  "process_row st row = process_row_with KEYWORD_RULES OFF_CATEGORY_MAP st row"

text \<open>The loop: rows in the order of the source; an exception ends the run.\<close>

fun process_rows_with ::
  "(string list \<times> string) list \<Rightarrow> (string \<times> string option) list \<Rightarrow>
   state \<Rightarrow> row list \<Rightarrow> error + state" where
  "process_rows_with kr om st [] = Inr st"
| "process_rows_with kr om st (row # rows) =
     (case process_row_with kr om st row of
        Inl e \<Rightarrow> Inl e
      | Inr st' \<Rightarrow> process_rows_with kr om st' rows)"

definition init_state :: "bool \<Rightarrow> state" where
  "init_state generate_meta =
     \<lparr>category_db = Map.empty,
      meta_db = (if generate_meta then Some Map.empty else None),
      skipped = 0, classified = 0, unclassified = 0\<rparr>"

text \<open>\<^verbatim>\<open>build_database\<close> on the rows of a readable file: the state from which the
  summary is printed and the two mappings are written, or the exception.\<close>

definition build_database_with ::
  "(string list \<times> string) list \<Rightarrow> (string \<times> string option) list \<Rightarrow>
   row list \<Rightarrow> bool \<Rightarrow> error + state" where
  "build_database_with kr om rows generate_meta =
     process_rows_with kr om (init_state generate_meta) rows"

definition build_database :: "row list \<Rightarrow> bool \<Rightarrow> error + state" where
  "build_database rows generate_meta =
     build_database_with KEYWORD_RULES OFF_CATEGORY_MAP rows generate_meta"

subsection \<open>The outcome of a row, as the specification describes it\<close>

text \<open>The specification gives each row one of three outcomes: filtered, unclassified,
  or classified with a category. \<open>row_entry_with\<close> is the entry that a classified row
  contributes to the output mapping, following the steps of the specification; it is
  compared with the loop body below.\<close>

definition row_entry_with ::
  "(string list \<times> string) list \<Rightarrow> (string \<times> string option) list \<Rightarrow>
   row \<Rightarrow> (string \<times> nat) option" where
  "row_entry_with kr om row =
     (if length (row_name row) < 2 then None
      else if is_culinary_ingredient (row_name row) (row_off_cat row) (row_tags row)
      then (case resolve_category_with kr om (row_name row) (row_off_cat row) (row_tags row) of
              None \<Rightarrow> None
            | Some category \<Rightarrow>
                if CAT_get category = UNKNOWN then None
                else Some (row_name row, CAT_get category))
      else None)"

definition row_entry :: "row \<Rightarrow> (string \<times> nat) option" where
  "row_entry row = row_entry_with KEYWORD_RULES OFF_CATEGORY_MAP row"

text \<open>The rows on whose metadata the run ends with an exception: the energy field
  reads as an infinity.\<close>

definition kcal_is_infinite :: "row \<Rightarrow> bool" where
  "kcal_is_infinite row =
     (py_float (row_get row ''energy-kcal_100g'') = Inr PInf
      \<or> py_float (row_get row ''energy-kcal_100g'') = Inr NInf)"
section \<open>Properties of the string primitives\<close>

lemma startswith_iff: "startswith p s \<longleftrightarrow> (\<exists>t. s = p @ t)"
  by (induction p s rule: startswith.induct) auto

lemma str_in_iff: "str_in kw s \<longleftrightarrow> (\<exists>ps ss. s = ps @ kw @ ss)"
proof (induction s)
  case Nil
  show ?case by auto
next
  case (Cons c s)
  show ?case
  proof
    assume "str_in kw (c # s)"
    then consider "startswith kw (c # s)" | "str_in kw s"
      by (auto split: if_splits)
    then show "\<exists>ps ss. c # s = ps @ kw @ ss"
    proof cases
      case 1
      then obtain t where "c # s = kw @ t" by (auto simp: startswith_iff)
      then have "c # s = [] @ kw @ t" by simp
      then show ?thesis by blast
    next
      case 2
      then obtain ps ss where "s = ps @ kw @ ss" using Cons.IH by blast
      then have "c # s = (c # ps) @ kw @ ss" by simp
      then show ?thesis by blast
    qed
  next
    assume "\<exists>ps ss. c # s = ps @ kw @ ss"
    then obtain ps ss where eq: "c # s = ps @ kw @ ss" by blast
    show "str_in kw (c # s)"
    proof (cases ps)
      case Nil
      with eq have "startswith kw (c # s)" by (auto simp: startswith_iff)
      then show ?thesis by simp
    next
      case (Cons a ps')
      with eq have "s = ps' @ kw @ ss" by simp
      then have "str_in kw s" using Cons.IH by blast
      then show ?thesis by simp
    qed
  qed
qed

lemma str_in_set: "str_in kw s \<Longrightarrow> set kw \<subseteq> set s"
  by (auto simp: str_in_iff)

lemma match_digits5_iff:
  "match_digits5 s \<longleftrightarrow> (\<exists>ds t. s = ds @ t \<and> 5 \<le> length ds \<and> list_all isdigit ds)"
proof
  assume "match_digits5 s"
  then have "5 \<le> length (takeWhile isdigit s)" by (simp add: match_digits5_def)
  moreover have "s = takeWhile isdigit s @ dropWhile isdigit s" by simp
  moreover have "list_all isdigit (takeWhile isdigit s)"
    by (auto simp: list_all_iff dest: set_takeWhileD)
  ultimately show "\<exists>ds t. s = ds @ t \<and> 5 \<le> length ds \<and> list_all isdigit ds" by blast
next
  assume "\<exists>ds t. s = ds @ t \<and> 5 \<le> length ds \<and> list_all isdigit ds"
  then obtain ds t where s: "s = ds @ t" and len: "5 \<le> length ds" and dig: "list_all isdigit ds"
    by blast
  from dig have "takeWhile isdigit (ds @ t) = ds @ takeWhile isdigit t"
    by (simp add: list_all_iff takeWhile_append2)
  with s len show "match_digits5 s" by (simp add: match_digits5_def)
qed

lemma search_digits5_iff:
  "search_digits5 s \<longleftrightarrow>
     (\<exists>ps ds ss. s = ps @ ds @ ss \<and> 5 \<le> length ds \<and> list_all isdigit ds)"
proof (induction s)
  case Nil
  show ?case by simp
next
  case (Cons c s)
  show ?case
  proof
    assume "search_digits5 (c # s)"
    then consider "match_digits5 (c # s)" | "search_digits5 s"
      by (simp split: if_splits)
    then show "\<exists>ps ds ss. c # s = ps @ ds @ ss \<and> 5 \<le> length ds \<and> list_all isdigit ds"
    proof cases
      case 1
      then obtain ds t where "c # s = ds @ t" "5 \<le> length ds" "list_all isdigit ds"
        using match_digits5_iff by blast
      then have "c # s = [] @ ds @ t \<and> 5 \<le> length ds \<and> list_all isdigit ds" by simp
      then show ?thesis by blast
    next
      case 2
      then obtain ps ds ss where "s = ps @ ds @ ss" "5 \<le> length ds" "list_all isdigit ds"
        using Cons.IH by blast
      then have "c # s = (c # ps) @ ds @ ss \<and> 5 \<le> length ds \<and> list_all isdigit ds"
        by simp
      then show ?thesis by blast
    qed
  next
    assume "\<exists>ps ds ss. c # s = ps @ ds @ ss \<and> 5 \<le> length ds \<and> list_all isdigit ds"
    then obtain ps ds ss where eq: "c # s = ps @ ds @ ss"
      and len: "5 \<le> length ds" and dig: "list_all isdigit ds" by blast
    show "search_digits5 (c # s)"
    proof (cases ps)
      case Nil
      with eq have "c # s = ds @ ss" by simp
      with len dig have "match_digits5 (c # s)"
        using match_digits5_iff by blast
      then show ?thesis by simp
    next
      case (Cons a ps')
      with eq have "s = ps' @ ds @ ss" by simp
      with len dig have "search_digits5 s" using Cons.IH by blast
      then show ?thesis by simp
    qed
  qed
qed

lemma any_word_in_iff: "any_word_in ws name \<longleftrightarrow> list_ex (\<lambda>w. str_in w name) ws"
  by (induction ws) auto

section \<open>Evaluating the name matcher on a given name\<close>

text \<open>The table is a long literal. This congruence rule keeps the simplifier from
  walking through the rest of the table again after each rule it has tried.\<close>

lemma classify_by_name_rules_cong:
  "name = name' \<Longrightarrow> classify_by_name_rules rules name = classify_by_name_rules rules name'"
  by simp

section \<open>The category enumeration\<close>

lemma CAT_CATEGORIES: "map CAT CATEGORIES = map Some [0..<24]"
  by (simp add: CAT_def CATEGORIES_def enumerate_eq_zip upt_rec)

lemma UNKNOWN_eq: "UNKNOWN = 22"
  by (simp add: UNKNOWN_def CAT_def CATEGORIES_def enumerate_eq_zip upt_rec)

lemma length_CATEGORIES: "length CATEGORIES = 24"
  by (simp add: CATEGORIES_def)

lemma CATEGORIES_22: "CATEGORIES ! 22 = ''unknown''"
  by (simp add: CATEGORIES_def)

lemma distinct_CATEGORIES: "distinct CATEGORIES"
  by (simp add: CATEGORIES_def)

lemma CAT_nth:
  assumes "i < 24"
  shows "CAT (CATEGORIES ! i) = Some i"
proof -
  have "map CAT CATEGORIES ! i = map Some [0..<24] ! i"
    by (simp only: CAT_CATEGORIES)
  with assms show ?thesis
    by (simp add: length_CATEGORIES)
qed

lemma CAT_get_category:
  assumes "ct \<in> set CATEGORIES"
  shows "CAT ct = Some (CAT_get ct) \<and> CAT_get ct < 24 \<and> CATEGORIES ! CAT_get ct = ct
         \<and> (ct \<noteq> ''unknown'' \<longrightarrow> CAT_get ct \<noteq> UNKNOWN)"
proof -
  from assms obtain i where i: "i < 24" "CATEGORIES ! i = ct"
    by (auto simp: in_set_conv_nth length_CATEGORIES)
  then have c: "CAT ct = Some i" using CAT_nth by blast
  then have g: "CAT_get ct = i" by (simp add: CAT_get_def)
  have "ct \<noteq> ''unknown'' \<longrightarrow> i \<noteq> 22"
    using i CATEGORIES_22 by auto
  with i c g show ?thesis by (simp add: UNKNOWN_eq)
qed

section \<open>Targets of the rule tables\<close>

lemma remdups_adj_weak_cong: "remdups_adj xs = remdups_adj xs"
  by (rule refl)

lemma remdups_adj_map_step:
  "remdups_adj (map f (x # y # xs)) =
     (if f x = f y then remdups_adj (map f (y # xs)) else f x # remdups_adj (map f (y # xs)))"
  by simp

lemma remdups_adj_map_single: "remdups_adj (map f [x]) = [f x]"
  by simp

lemma keyword_targets_adj:
  "remdups_adj (map snd KEYWORD_RULES) =
    [''pantry'', ''condiment'', ''pantry'', ''cheese'', ''pantry'', ''oil'',
     ''vinegar'', ''juice'', ''sugar'', ''leavening'', ''flour'', ''sugar'',
     ''meat'', ''poultry'', ''produce'', ''legume'', ''nut'', ''alcohol'',
     ''spice'', ''dairy'', ''alcohol'', ''pop'', ''beverage'', ''juice'',
     ''meat'', ''poultry'', ''seafood'', ''egg'', ''cheese'', ''dairy'',
     ''grain'', ''pasta'', ''legume'', ''dairy'', ''legume'', ''nut'',
     ''spice'', ''condiment'', ''oil'', ''vinegar'', ''flour'', ''sugar'']"
  unfolding KEYWORD_RULES_def
  by (simp only: remdups_adj_map_step remdups_adj_map_single snd_conv list.inject char.inject
        simp_thms if_True if_False cong: remdups_adj_weak_cong if_weak_cong)

lemma off_targets_adj:
  "remdups_adj (map snd OFF_CATEGORY_MAP) =
    [None, Some ''grain'', Some ''dairy'', None, Some ''meat'',
     Some ''poultry'', Some ''seafood'', Some ''cheese'', Some ''dairy'',
     Some ''egg'', Some ''grain'', Some ''pasta'', Some ''legume'',
     Some ''nut'', Some ''spice'', Some ''condiment'', Some ''oil'',
     Some ''vinegar'', Some ''flour'', Some ''sugar'', Some ''leavening'',
     Some ''alcohol'', Some ''pop'', Some ''juice'', Some ''beverage'', None]"
  unfolding OFF_CATEGORY_MAP_def
  by (simp only: remdups_adj_map_step remdups_adj_map_single snd_conv list.inject char.inject
        option.inject option.distinct
        simp_thms if_True if_False cong: remdups_adj_weak_cong if_weak_cong)

lemma keyword_targets_ok:
  assumes "(kws, ct) \<in> set KEYWORD_RULES"
  shows "ct \<in> set CATEGORIES \<and> ct \<noteq> ''unknown''"
proof -
  from assms have "ct \<in> set (map snd KEYWORD_RULES)" by force
  then have "ct \<in> set (remdups_adj (map snd KEYWORD_RULES))" by simp
  then show ?thesis
    unfolding keyword_targets_adj by (auto simp: CATEGORIES_def)
qed

lemma off_targets_ok:
  assumes "(kw, Some ct) \<in> set OFF_CATEGORY_MAP"
  shows "ct \<in> set CATEGORIES \<and> ct \<noteq> ''unknown''"
proof -
  from assms have "Some ct \<in> set (map snd OFF_CATEGORY_MAP)" by force
  then have "Some ct \<in> set (remdups_adj (map snd OFF_CATEGORY_MAP))" by simp
  then show ?thesis
    unfolding off_targets_adj by (auto simp: CATEGORIES_def)
qed

section \<open>Where a result of the matchers comes from\<close>

lemma classify_by_name_rules_Some:
  "classify_by_name_rules rules name = Some ct \<Longrightarrow> \<exists>kws. (kws, ct) \<in> set rules"
  by (induction rules name rule: classify_by_name_rules.induct) (auto split: if_splits)

lemma classify_by_off_category_rules_Some:
  "classify_by_off_category_rules rules s = Some ct \<Longrightarrow> \<exists>kw. (kw, Some ct) \<in> set rules"
  by (induction rules s rule: classify_by_off_category_rules.induct) (auto split: if_splits)

lemma classify_by_off_category_in_Some:
  "classify_by_off_category_in rules s = Some ct \<Longrightarrow> \<exists>kw. (kw, Some ct) \<in> set rules"
  using classify_by_off_category_rules_Some
  by (fastforce simp: classify_by_off_category_in_def split: if_splits)

lemma resolve_category_with_Some:
  assumes "resolve_category_with kr om name off_cat tags = Some ct"
  shows "(\<exists>kws. (kws, ct) \<in> set kr) \<or> (\<exists>kw. (kw, Some ct) \<in> set om)"
proof (cases "classify_by_name_rules kr name")
  case (Some c)
  with assms have "c = ct" by (simp add: resolve_category_with_def)
  with Some show ?thesis using classify_by_name_rules_Some by blast
next
  case None
  show ?thesis
  proof (cases "classify_by_off_category_in om off_cat")
    case (Some c)
    with None assms have "c = ct" by (simp add: resolve_category_with_def)
    with Some show ?thesis using classify_by_off_category_in_Some by blast
  next
    case n2: None
    with None assms have "classify_by_off_category_in om tags = Some ct"
      by (simp add: resolve_category_with_def)
    then show ?thesis using classify_by_off_category_in_Some by blast
  qed
qed

section \<open>The name matcher on given names\<close>

text \<open>
  C1. The claim: a single-word keyword is matched at word boundaries, so the rule for
  \<open>rum\<close> does not fire on a name in which \<open>rum\<close> occurs only inside \<open>serum\<close>.
  The header comment of the table says the same. The matcher tests every keyword with
  the substring operator, so on the name \<open>serum\<close> the rule for \<open>rum\<close> fires and the
  name is classified as alcohol.
\<close>

theorem single_word_keyword_matches_inside_word:
  "classify_by_name ''serum'' = Some ''alcohol''"
  unfolding classify_by_name_def KEYWORD_RULES_def
  by (simp cong: classify_by_name_rules_cong)

text \<open>
  C2. The claim: a name containing \<open>olive oil\<close> resolves to the category of the compound
  rule, \<open>oil\<close>, the compound rule being listed before the rule for \<open>olive\<close> alone. In
  the table the rule for \<open>olive\<close> alone (pantry) stands before the rule for
  \<open>olive oil\<close>, so the matcher returns pantry.
\<close>

theorem olive_oil_resolves_to_pantry:
  "classify_by_name ''extra virgin olive oil'' = Some ''pantry''"
  unfolding classify_by_name_def KEYWORD_RULES_def
  by (simp cong: classify_by_name_rules_cong)

section \<open>Rules whose keyword begins with a closing bracket\<close>

lemma bracket_keyword_not_in:
  "CHR '']'' \<notin> set name \<Longrightarrow> startswith '']'' kw \<Longrightarrow> \<not> str_in kw name"
  using str_in_set [of kw name] by (auto simp: startswith_iff)

lemma bracket_rule_skipped:
  assumes "CHR '']'' \<notin> set name" and "list_ex (startswith '']'') kws"
  shows "\<not> list_all (\<lambda>kw. str_in kw name) kws"
  using assms bracket_keyword_not_in by (auto simp: list_ex_iff list_all_iff)

lemma classify_without_bracket_rules:
  "CHR '']'' \<notin> set name \<Longrightarrow>
   classify_by_name_rules
     (filter (\<lambda>(keywords, category). \<not> list_ex (startswith '']'') keywords) rules) name =
   classify_by_name_rules rules name"
proof (induction rules)
  case Nil
  show ?case by simp
next
  case (Cons r rules)
  obtain kws category where r: "r = (kws, category)" by (cases r)
  show ?case
  proof (cases "list_ex (startswith '']'') kws")
    case True
    with Cons.prems have "\<not> list_all (\<lambda>kw. str_in kw name) kws"
      by (rule bracket_rule_skipped)
    with True r Cons show ?thesis by simp
  next
    case False
    with r Cons show ?thesis by simp
  qed
qed

lemma filter_weak_cong: "filter P xs = filter P xs"
  by (rule refl)

lemma bracket_rules:
  "filter (\<lambda>(keywords, category). list_ex (startswith '']'') keywords) KEYWORD_RULES =
     [(['']chicken broth''], ''pantry''), (['']beef broth''], ''pantry''),
      (['']vegetable broth''], ''pantry''), (['']kimchi''], ''pantry''),
      (['']steak sauce''], ''condiment''), (['']oyster mushroom sauce''], ''pantry''),
      (['']starch water''], ''pantry''), (['']stick rice flour''], ''pantry''),
      (['']wakame''], ''pantry''), (['']shortening''], ''flour''),
      (['']cornstarch''], ''flour''), (['']tsaoko''], ''spice'')]"
  unfolding KEYWORD_RULES_def
  by (simp cong: filter_weak_cong)

lemma chicken_broth: "classify_by_name ''chicken broth'' = Some ''beverage''"
  unfolding classify_by_name_def KEYWORD_RULES_def
  by (simp cong: classify_by_name_rules_cong)

text \<open>
  C10. Twelve rules of the name table have a keyword that begins with \<open>]\<close>, among them
  the three broth rules. On a name without \<open>]\<close> none of them can match: the matcher
  returns what it returns on the table without these rules. The name
  \<open>chicken broth\<close> is classified as beverage, by the later rule for \<open>broth\<close>.
\<close>

theorem bracket_rules_never_match:
  "filter (\<lambda>(keywords, category). list_ex (startswith '']'') keywords) KEYWORD_RULES =
     [(['']chicken broth''], ''pantry''), (['']beef broth''], ''pantry''),
      (['']vegetable broth''], ''pantry''), (['']kimchi''], ''pantry''),
      (['']steak sauce''], ''condiment''), (['']oyster mushroom sauce''], ''pantry''),
      (['']starch water''], ''pantry''), (['']stick rice flour''], ''pantry''),
      (['']wakame''], ''pantry''), (['']shortening''], ''flour''),
      (['']cornstarch''], ''flour''), (['']tsaoko''], ''spice'')]
   \<and> (CHR '']'' \<notin> set name \<longrightarrow>
        classify_by_name name =
        classify_by_name_rules
          (filter (\<lambda>(keywords, category). \<not> list_ex (startswith '']'') keywords)
             KEYWORD_RULES) name)
   \<and> classify_by_name ''chicken broth'' = Some ''beverage''"
  using bracket_rules chicken_broth classify_without_bracket_rules [of name KEYWORD_RULES]
  by (simp add: classify_by_name_def)

theorem bracket_rules_never_match_witness:
  "CHR '']'' \<notin> set ''chicken broth''
   \<and> classify_by_name_rules
        (filter (\<lambda>(keywords, category). \<not> list_ex (startswith '']'') keywords)
           KEYWORD_RULES) ''chicken broth'' = Some ''beverage''"
proof -
  have a: "CHR '']'' \<notin> set ''chicken broth''" by simp
  from bracket_rules_never_match [of "''chicken broth''"] a
  have "classify_by_name ''chicken broth'' =
        classify_by_name_rules
          (filter (\<lambda>(keywords, category). \<not> list_ex (startswith '']'') keywords)
             KEYWORD_RULES) ''chicken broth''"
    and "classify_by_name ''chicken broth'' = Some ''beverage''"
    by blast+
  with a show ?thesis by simp
qed

section \<open>The ingredient filter\<close>

text \<open>
  C4. The filter rejects a name exactly when the name is longer than 60 characters, or
  contains a run of at least five consecutive digits, or contains a word of the
  denylist; the category and tag arguments play no part. The filter is a function of
  its arguments alone.
\<close>

theorem is_culinary_ingredient_iff:
  "is_culinary_ingredient name off_cat tags \<longleftrightarrow>
     \<not> (60 < length name
        \<or> (\<exists>ps ds ss. name = ps @ ds @ ss \<and> 5 \<le> length ds \<and> list_all isdigit ds)
        \<or> (\<exists>w \<in> set skip_words. \<exists>ps ss. name = ps @ w @ ss))"
proof -
  have w: "any_word_in skip_words name \<longleftrightarrow>
             (\<exists>w \<in> set skip_words. \<exists>ps ss. name = ps @ w @ ss)"
    by (simp add: any_word_in_iff list_ex_iff str_in_iff)
  have d: "search_digits5 name \<longleftrightarrow>
             (\<exists>ps ds ss. name = ps @ ds @ ss \<and> 5 \<le> length ds \<and> list_all isdigit ds)"
    by (rule search_digits5_iff)
  have chain: "(if a then False else if b then False else if c then False else True) =
                 (\<not> (a \<or> b \<or> c))" for a b c :: bool
    by simp
  show ?thesis
    unfolding is_culinary_ingredient_def w d by (rule chain)
qed

theorem is_culinary_ingredient_iff_witness:
  "\<not> is_culinary_ingredient ''pizza margherita'' ''dairy'' ''en:cheeses''"
proof -
  have "''pizza'' \<in> set skip_words" by (simp add: skip_words_def)
  moreover have "''pizza margherita'' = [] @ ''pizza'' @ '' margherita''" by simp
  ultimately have "\<exists>w \<in> set skip_words. \<exists>ps ss. ''pizza margherita'' = ps @ w @ ss"
    by blast
  then show ?thesis
    using is_culinary_ingredient_iff [of "''pizza margherita''" "''dairy''" "''en:cheeses''"]
    by blast
qed

section \<open>The category-field matcher\<close>

lemma classify_by_off_category_rules_first:
  assumes "list_all (\<lambda>(k, t). \<not> str_in k s) pre" and "str_in keyword s"
  shows "classify_by_off_category_rules (pre @ (keyword, target) # post) s = target"
  using assms by (induction pre) auto

text \<open>
  C5. On the empty text the category-field matcher returns no match, whatever the
  table. On a text that is not empty the first rule whose keyword occurs in the text
  decides: the matcher returns that rule's target and looks at no later rule, and when
  the target is the no-opinion value the result is no match. When neither the name nor
  the primary category field gives a category, the row's category is what the matcher
  returns on the tags field.
\<close>

theorem classify_by_off_category_first_match:
  "classify_by_off_category_in rules [] = None
   \<and> classify_by_off_category [] = None
   \<and> (off_cat \<noteq> [] \<and> OFF_CATEGORY_MAP = pre @ (keyword, target) # post
        \<and> list_all (\<lambda>(k, t). \<not> str_in k off_cat) pre \<and> str_in keyword off_cat
      \<longrightarrow> classify_by_off_category off_cat = target)
   \<and> (classify_by_name name = None \<and> classify_by_off_category off_cat = None
      \<longrightarrow> resolve_category name off_cat tags = classify_by_off_category tags)"
  using classify_by_off_category_rules_first [of off_cat pre keyword target post]
  by (auto simp: classify_by_off_category_def classify_by_off_category_in_def
        resolve_category_def resolve_category_with_def classify_by_name_def)

lemma classify_by_off_category_rules_cong:
  "classify_by_off_category_rules rules s = classify_by_off_category_rules rules s"
  by (rule refl)

lemma classify_by_name_zzz: "classify_by_name ''zzz'' = None"
  unfolding classify_by_name_def KEYWORD_RULES_def
  by (simp cong: classify_by_name_rules_cong)

theorem classify_by_off_category_first_match_witness:
  "classify_by_off_category ''plant-based foods'' = None
   \<and> resolve_category ''zzz'' ''plant-based foods'' ''en:cheeses'' = Some ''cheese''"
proof -
  have n: "classify_by_name ''zzz'' = None"
    by (rule classify_by_name_zzz)
  have m: "OFF_CATEGORY_MAP = [] @ (''plant-based'', None) # tl OFF_CATEGORY_MAP"
    by (simp add: OFF_CATEGORY_MAP_def)
  have p: "list_all (\<lambda>(k, t). \<not> str_in k ''plant-based foods'') []" by simp
  have s: "str_in ''plant-based'' ''plant-based foods''" by simp
  have t: "classify_by_off_category ''en:cheeses'' = Some ''cheese''"
    unfolding classify_by_off_category_def classify_by_off_category_in_def OFF_CATEGORY_MAP_def
    by (simp cong: classify_by_off_category_rules_cong)
  have ne: "''plant-based foods'' \<noteq> []" by simp
  from classify_by_off_category_first_match
    [of undefined "''plant-based foods''" "[]" "''plant-based''" None "tl OFF_CATEGORY_MAP"
        "''zzz''" "''en:cheeses''"]
    ne m p s
  have o: "classify_by_off_category ''plant-based foods'' = None" by blast
  from classify_by_off_category_first_match
    [of undefined "''plant-based foods''" "[]" "''plant-based''" None "tl OFF_CATEGORY_MAP"
        "''zzz''" "''en:cheeses''"]
    n o
  have "resolve_category ''zzz'' ''plant-based foods'' ''en:cheeses'' =
        classify_by_off_category ''en:cheeses''" by blast
  with o t show ?thesis by simp
qed

section \<open>The loop body, case by case\<close>

lemma process_row_short:
  "length (row_name row) < 2 \<Longrightarrow>
   process_row_with kr om st row = Inr (st\<lparr>skipped := skipped st + 1\<rparr>)"
  by (cases "row_name row") (auto simp: process_row_with_def Let_def)

lemma process_row_filtered:
  "\<not> is_culinary_ingredient (row_name row) (row_off_cat row) (row_tags row) \<Longrightarrow>
   process_row_with kr om st row = Inr (st\<lparr>skipped := skipped st + 1\<rparr>)"
  by (simp add: process_row_with_def Let_def)

lemma process_row_unresolved:
  assumes "2 \<le> length (row_name row)"
    and "is_culinary_ingredient (row_name row) (row_off_cat row) (row_tags row)"
    and "resolve_category_with kr om (row_name row) (row_off_cat row) (row_tags row) = None"
  shows "process_row_with kr om st row = Inr (st\<lparr>unclassified := unclassified st + 1\<rparr>)"
  using assms by (auto simp: process_row_with_def Let_def)

lemma process_row_unknown:
  assumes "2 \<le> length (row_name row)"
    and "is_culinary_ingredient (row_name row) (row_off_cat row) (row_tags row)"
    and "resolve_category_with kr om (row_name row) (row_off_cat row) (row_tags row) = Some c"
    and "CAT_get c = UNKNOWN"
  shows "process_row_with kr om st row = Inr (st\<lparr>unclassified := unclassified st + 1\<rparr>)"
  using assms by (auto simp: process_row_with_def Let_def)

lemma process_row_classified:
  assumes "2 \<le> length (row_name row)"
    and "is_culinary_ingredient (row_name row) (row_off_cat row) (row_tags row)"
    and "resolve_category_with kr om (row_name row) (row_off_cat row) (row_tags row) = Some c"
    and "CAT_get c \<noteq> UNKNOWN"
  shows "process_row_with kr om st row =
     (case meta_db st of
        None \<Rightarrow> Inr (st\<lparr>category_db := (category_db st)(row_name row \<mapsto> CAT_get c),
                        classified := classified st + 1\<rparr>)
      | Some mdb \<Rightarrow>
          (case build_meta row (CAT_get c) of
             Inl e \<Rightarrow> Inl e
           | Inr m \<Rightarrow> Inr (st\<lparr>category_db := (category_db st)(row_name row \<mapsto> CAT_get c),
                              classified := classified st + 1,
                              meta_db := Some (mdb(row_name row \<mapsto> m))\<rparr>)))"
  using assms by (auto simp: process_row_with_def Let_def split: option.splits sum.splits)

lemma row_entry_None:
  assumes "row_entry_with kr om row = None" and "process_row_with kr om st row = Inr st'"
  shows "category_db st' = category_db st \<and> meta_db st' = meta_db st
         \<and> classified st' = classified st"
  using assms
  by (auto simp: row_entry_with_def process_row_with_def Let_def
           split: if_splits option.splits)

lemma row_entry_None_total:
  assumes "row_entry_with kr om row = None"
  shows "\<exists>st'. process_row_with kr om st row = Inr st'"
  using assms
  by (auto simp: row_entry_with_def process_row_with_def Let_def
           split: if_splits option.splits)

lemma row_entry_Some:
  assumes "row_entry_with kr om row = Some (n, i)" and "process_row_with kr om st row = Inr st'"
  shows "category_db st' = (category_db st)(n \<mapsto> i) \<and> i \<noteq> UNKNOWN
         \<and> classified st' = classified st + 1 \<and> skipped st' = skipped st
         \<and> unclassified st' = unclassified st"
  using assms
  by (auto simp: row_entry_with_def process_row_with_def Let_def
           split: if_splits option.splits sum.splits)

lemma process_row_meta_None:
  assumes "meta_db st = None"
  shows "\<exists>st'. process_row_with kr om st row = Inr st' \<and> meta_db st' = None"
  using assms
  by (auto simp: process_row_with_def Let_def split: option.splits)

section \<open>When the metadata of a row raises\<close>

lemma float_inner_error: "float_inner s = Inl e \<Longrightarrow> e = ValueError"
  by (auto simp: float_inner_def Let_def split: prod.splits if_splits option.splits)

lemma py_float_error: "py_float s = Inl e \<Longrightarrow> e = ValueError"
  by (auto simp: py_float_def Let_def split: if_splits option.splits dest: float_inner_error)

lemma py_float_empty: "py_float [] = Inl ValueError"
  by (simp add: py_float_def float_transform_def float_inner_def float_strip_def parse_sign_def
        lower_def parse_number_def)

lemma decimal_field_total: "\<exists>v. decimal_field ndigits s = Inr v"
proof (cases "py_float s")
  case (Inl e)
  then have "e = ValueError" by (rule py_float_error)
  with Inl show ?thesis by (simp add: decimal_field_def except_ValueError_def)
next
  case (Inr x)
  then show ?thesis by (simp add: decimal_field_def except_ValueError_def)
qed

lemma kcal_field_Inl:
  "kcal_field s = Inl e \<longleftrightarrow>
     e = OverflowError \<and> (py_float s = Inr PInf \<or> py_float s = Inr NInf)"
proof (cases "s = []")
  case True
  then show ?thesis by (simp add: kcal_field_def py_float_empty)
next
  case False
  show ?thesis
  proof (cases "py_float s")
    case (Inl e')
    then have "e' = ValueError" by (rule py_float_error)
    with Inl False show ?thesis by (simp add: kcal_field_def except_ValueError_def)
  next
    case (Inr x)
    with False show ?thesis
      by (cases x; cases e) (auto simp: kcal_field_def except_ValueError_def py_round_def)
  qed
qed

lemma build_meta_Inl:
  "build_meta row i = Inl e \<longleftrightarrow> e = OverflowError \<and> kcal_is_infinite row"
proof -
  obtain p where p: "decimal_field 1 (row_get row ''proteins_100g'') = Inr p"
    using decimal_field_total by blast
  obtain c where c: "decimal_field 1 (row_get row ''carbohydrates_100g'') = Inr c"
    using decimal_field_total by blast
  obtain f where f: "decimal_field 1 (row_get row ''fat_100g'') = Inr f"
    using decimal_field_total by blast
  obtain fi where fi: "decimal_field 1 (row_get row ''fiber_100g'') = Inr fi"
    using decimal_field_total by blast
  obtain so where so: "decimal_field 3 (row_get row ''sodium_100g'') = Inr so"
    using decimal_field_total by blast
  show ?thesis
  proof (cases "kcal_field (row_get row ''energy-kcal_100g'')")
    case (Inl e')
    then have "e' = OverflowError" and "kcal_is_infinite row"
      by (simp_all add: kcal_field_Inl kcal_is_infinite_def)
    with Inl show ?thesis by (auto simp: build_meta_def Let_def)
  next
    case (Inr k)
    then have "\<not> kcal_is_infinite row"
      using kcal_field_Inl [of "row_get row ''energy-kcal_100g''" OverflowError]
      by (auto simp: kcal_is_infinite_def)
    with Inr p c f fi so show ?thesis by (simp add: build_meta_def Let_def)
  qed
qed

lemma row_entry_SomeD:
  assumes "row_entry_with kr om row = Some a"
  shows "\<exists>c. 2 \<le> length (row_name row)
           \<and> is_culinary_ingredient (row_name row) (row_off_cat row) (row_tags row)
           \<and> resolve_category_with kr om (row_name row) (row_off_cat row) (row_tags row) = Some c
           \<and> CAT_get c \<noteq> UNKNOWN \<and> a = (row_name row, CAT_get c)"
  using assms
  by (auto simp: row_entry_with_def split: if_splits option.splits)

lemma process_row_total:
  assumes "\<not> kcal_is_infinite row"
  shows "\<exists>st'. process_row_with kr om st row = Inr st'"
proof (cases "row_entry_with kr om row")
  case None
  then show ?thesis by (rule row_entry_None_total)
next
  case (Some a)
  then obtain c where c: "2 \<le> length (row_name row)"
    "is_culinary_ingredient (row_name row) (row_off_cat row) (row_tags row)"
    "resolve_category_with kr om (row_name row) (row_off_cat row) (row_tags row) = Some c"
    "CAT_get c \<noteq> UNKNOWN"
    using row_entry_SomeD by blast
  from assms obtain m where m: "build_meta row (CAT_get c) = Inr m"
    using build_meta_Inl [of row "CAT_get c"] by (cases "build_meta row (CAT_get c)") auto
  show ?thesis
    unfolding process_row_classified [OF c] using m
    by (cases "meta_db st") auto
qed

section \<open>The whole run\<close>

lemma process_rows_category_db:
  "process_rows_with kr om st rows = Inr st' \<Longrightarrow>
   category_db st' = category_db st ++ map_of (rev (List.map_filter (row_entry_with kr om) rows))"
proof (induction rows arbitrary: st)
  case Nil
  then show ?case by (simp add: map_filter_simps)
next
  case (Cons row rows)
  from Cons.prems obtain st1 where
    s1: "process_row_with kr om st row = Inr st1" and
    r: "process_rows_with kr om st1 rows = Inr st'"
    by (auto split: sum.splits)
  from Cons.IH [OF r] have ih:
    "category_db st' =
       category_db st1 ++ map_of (rev (List.map_filter (row_entry_with kr om) rows))" .
  show ?case
  proof (cases "row_entry_with kr om row")
    case None
    with s1 have "category_db st1 = category_db st" using row_entry_None by blast
    with ih None show ?thesis by (simp add: map_filter_simps)
  next
    case (Some a)
    obtain n i where a: "a = (n, i)" by (cases a)
    with Some s1 have "category_db st1 = (category_db st)(n \<mapsto> i)"
      using row_entry_Some by blast
    with ih Some a show ?thesis by (simp add: map_filter_simps)
  qed
qed

lemma process_rows_no_meta:
  "meta_db st = None \<Longrightarrow> \<exists>st'. process_rows_with kr om st rows = Inr st'"
proof (induction rows arbitrary: st)
  case Nil
  show ?case by simp
next
  case (Cons row rows)
  from Cons.prems obtain st1 where
    "process_row_with kr om st row = Inr st1" "meta_db st1 = None"
    using process_row_meta_None by blast
  with Cons.IH [of st1] show ?case by auto
qed

lemma process_rows_total:
  "list_all (\<lambda>r. \<not> kcal_is_infinite r) rows \<Longrightarrow>
   \<exists>st'. process_rows_with kr om st rows = Inr st'"
proof (induction rows arbitrary: st)
  case Nil
  show ?case by simp
next
  case (Cons row rows)
  then obtain st1 where "process_row_with kr om st row = Inr st1"
    using process_row_total [of row kr om st] by auto
  with Cons show ?case by auto
qed

lemma process_rows_unknown_free:
  "process_rows_with kr om st rows = Inr st' \<Longrightarrow> UNKNOWN \<notin> ran (category_db st) \<Longrightarrow>
   UNKNOWN \<notin> ran (category_db st')"
proof (induction rows arbitrary: st)
  case Nil
  then show ?case by simp
next
  case (Cons row rows)
  from Cons.prems obtain st1 where
    s1: "process_row_with kr om st row = Inr st1" and
    r: "process_rows_with kr om st1 rows = Inr st'"
    by (auto split: sum.splits)
  have "UNKNOWN \<notin> ran (category_db st1)"
  proof (cases "row_entry_with kr om row")
    case None
    with s1 have "category_db st1 = category_db st" using row_entry_None by blast
    with Cons.prems show ?thesis by simp
  next
    case (Some a)
    obtain n i where a: "a = (n, i)" by (cases a)
    with Some s1 have "category_db st1 = (category_db st)(n \<mapsto> i)" and "i \<noteq> UNKNOWN"
      using row_entry_Some by blast+
    with Cons.prems show ?thesis by (auto simp: ran_def split: if_splits)
  qed
  with Cons.IH [OF r] show ?case .
qed

section \<open>Rows with a name of fewer than two characters\<close>

lemma row_entry_short: "length (row_name row) < 2 \<Longrightarrow> row_entry_with kr om row = None"
  by (simp add: row_entry_with_def)

lemma process_rows_all_short:
  "list_all (\<lambda>r. length (row_name r) < 2) rows \<Longrightarrow>
   process_rows_with kr om st rows = Inr (st\<lparr>skipped := skipped st + length rows\<rparr>)"
proof (induction rows arbitrary: st)
  case Nil
  show ?case by simp
next
  case (Cons row rows)
  then have "process_row_with kr om st row = Inr (st\<lparr>skipped := skipped st + 1\<rparr>)"
    by (simp add: process_row_short)
  with Cons show ?case by simp
qed

text \<open>
  C6. A row whose normalised name is empty or has one character is counted as skipped
  and changes nothing else: the step does not depend on the rule tables or on any
  other field of the row, and the row has no entry in either mapping. A run over such
  rows only ends with both mappings as they were at the start.
\<close>

theorem short_name_is_filtered_first:
  "(length (row_name row) < 2 \<longrightarrow>
      process_row_with kr om st row = Inr (st\<lparr>skipped := skipped st + 1\<rparr>)
      \<and> row_entry_with kr om row = None)
   \<and> (list_all (\<lambda>r. length (row_name r) < 2) rows \<longrightarrow>
        build_database_with kr om rows generate_meta =
          Inr ((init_state generate_meta)\<lparr>skipped := length rows\<rparr>))"
  using process_rows_all_short [of rows kr om "init_state generate_meta"]
  by (auto simp: process_row_short row_entry_short build_database_with_def init_state_def)

lemma row_name_empty_dairy:
  "row_name [''product_name'' \<mapsto> '''', ''main_category_en'' \<mapsto> ''dairy''] = []"
  by (simp add: row_name_def row_get_def lower_def strip_def)

theorem short_name_is_filtered_first_witness:
  "process_row (init_state True)
     [''product_name'' \<mapsto> '''', ''main_category_en'' \<mapsto> ''dairy''] =
     Inr ((init_state True)\<lparr>skipped := 1\<rparr>)
   \<and> classify_by_off_category ''dairy'' = Some ''dairy''"
proof -
  have "length (row_name [''product_name'' \<mapsto> '''', ''main_category_en'' \<mapsto> ''dairy'']) < 2"
    by (simp add: row_name_empty_dairy)
  with short_name_is_filtered_first
    [of "[''product_name'' \<mapsto> '''', ''main_category_en'' \<mapsto> ''dairy'']"
        KEYWORD_RULES OFF_CATEGORY_MAP "init_state True"]
  have "process_row (init_state True)
          [''product_name'' \<mapsto> '''', ''main_category_en'' \<mapsto> ''dairy''] =
        Inr ((init_state True)\<lparr>skipped := skipped (init_state True) + 1\<rparr>)"
    by (simp add: process_row_def)
  moreover have "classify_by_off_category ''dairy'' = Some ''dairy''"
    unfolding classify_by_off_category_def classify_by_off_category_in_def OFF_CATEGORY_MAP_def
    by (simp cong: classify_by_off_category_rules_cong)
  ultimately show ?thesis by (simp add: init_state_def)
qed

section \<open>The reserved category is never written\<close>

lemma CAT_get_unknown: "CAT_get ''unknown'' = UNKNOWN"
proof -
  have "''unknown'' \<in> set CATEGORIES" by (simp add: CATEGORIES_def)
  then have "CAT ''unknown'' = Some (CAT_get ''unknown'')" using CAT_get_category by blast
  then show ?thesis by (simp add: UNKNOWN_def)
qed

text \<open>
  C3. No step of the run writes the ordinal of \<open>unknown\<close> to the output mapping, whatever
  the rule tables are: a mapping free of it stays free of it, and so is the mapping of
  a whole run. A row that passes the filters and resolves to a category whose ordinal
  is that of \<open>unknown\<close> adds one to the unclassified counter and changes nothing else.
  Without metadata the run always returns.
\<close>

theorem unknown_is_never_written:
  "(process_row_with kr om st row = Inr st' \<and> UNKNOWN \<notin> ran (category_db st)
      \<longrightarrow> UNKNOWN \<notin> ran (category_db st'))
   \<and> (2 \<le> length (row_name row)
        \<and> is_culinary_ingredient (row_name row) (row_off_cat row) (row_tags row)
        \<and> resolve_category_with kr om (row_name row) (row_off_cat row) (row_tags row) = Some c
        \<and> CAT_get c = UNKNOWN
      \<longrightarrow> process_row_with kr om st row = Inr (st\<lparr>unclassified := unclassified st + 1\<rparr>))
   \<and> (build_database_with kr om rows generate_meta = Inr final
      \<longrightarrow> UNKNOWN \<notin> ran (category_db final))
   \<and> (\<exists>s. build_database_with kr om rows False = Inr s)"
proof -
  have a: "UNKNOWN \<notin> ran (category_db st')"
    if "process_row_with kr om st row = Inr st'" "UNKNOWN \<notin> ran (category_db st)"
    using process_rows_unknown_free [of kr om st "[row]" st'] that by simp
  have b: "UNKNOWN \<notin> ran (category_db final)"
    if "build_database_with kr om rows generate_meta = Inr final"
    using process_rows_unknown_free [of kr om "init_state generate_meta" rows final] that
    by (simp add: build_database_with_def init_state_def)
  have c: "\<exists>s. build_database_with kr om rows False = Inr s"
    using process_rows_no_meta [of "init_state False" kr om rows]
    by (simp add: build_database_with_def init_state_def)
  from a b c show ?thesis
    using process_row_unknown [of row kr om c st] by blast
qed

theorem unknown_is_never_written_witness:
  "process_row_with [([''mystery''], ''unknown'')] [] (init_state False)
     [''product_name'' \<mapsto> ''Mystery Box''] =
   Inr ((init_state False)\<lparr>unclassified := 1\<rparr>)"
proof -
  let ?row = "[''product_name'' \<mapsto> ''Mystery Box'']"
  have n: "row_name ?row = ''mystery box''"
    by code_simp
  have o: "row_off_cat ?row = []" and t: "row_tags ?row = []"
    by (simp_all add: row_off_cat_def row_tags_def row_get_def lower_def)
  have l: "2 \<le> length (row_name ?row)" by (simp add: n)
  have i: "is_culinary_ingredient (row_name ?row) (row_off_cat ?row) (row_tags ?row)"
    unfolding n o t
    by (simp add: is_culinary_ingredient_def match_digits5_def isdigit_def skip_words_def)
  have r: "resolve_category_with [([''mystery''], ''unknown'')] [] (row_name ?row)
             (row_off_cat ?row) (row_tags ?row) = Some ''unknown''"
    unfolding n o t by (simp add: resolve_category_with_def)
  from unknown_is_never_written
    [of "[([''mystery''], ''unknown'')]" "[]" "init_state False" ?row _ "''unknown''"]
    l i r CAT_get_unknown
  have "process_row_with [([''mystery''], ''unknown'')] [] (init_state False) ?row =
        Inr ((init_state False)\<lparr>unclassified := unclassified (init_state False) + 1\<rparr>)"
    by blast
  then show ?thesis by (simp add: init_state_def)
qed

section \<open>Duplicate names\<close>

lemma map_filter_app:
  "List.map_filter f (xs @ ys) = List.map_filter f xs @ List.map_filter f ys"
  by (induction xs) (auto split: option.splits)

lemma in_set_map_filter:
  "p \<in> set (List.map_filter f xs) \<Longrightarrow> \<exists>x \<in> set xs. f x = Some p"
  by (induction xs) (auto split: option.splits)

lemma map_of_rev_last_wins:
  assumes "\<forall>p \<in> set zs. fst p \<noteq> n"
  shows "map_of (rev (xs @ (n, c) # zs)) n = Some c"
proof -
  have "map_of (rev zs) n = None"
    using assms by (force simp: map_of_eq_None_iff)
  then show ?thesis by (simp add: map_add_def)
qed

lemma build_database_category_db:
  assumes "build_database rows generate_meta = Inr st"
  shows "category_db st = map_of (rev (List.map_filter row_entry rows))"
proof -
  have "row_entry = row_entry_with KEYWORD_RULES OFF_CATEGORY_MAP"
    by (rule ext) (simp add: row_entry_def)
  with assms show ?thesis
    using process_rows_category_db
      [of KEYWORD_RULES OFF_CATEGORY_MAP "init_state generate_meta" rows st]
    by (simp add: build_database_def build_database_with_def init_state_def)
qed

text \<open>
  C8. The output mapping is a map, so a name has at most one ordinal. After a run it
  holds, for every name, the entry of the last row classified under that name: of two
  classified rows with the same normalised name the later one decides, when no row
  after it is classified under that name. Duplicate names raise nothing: without
  metadata the run always returns, and with metadata it returns whenever no energy
  field reads as an infinity.
\<close>

theorem last_write_for_a_name_wins:
  "(build_database rows generate_meta = Inr st
      \<longrightarrow> category_db st = map_of (rev (List.map_filter row_entry rows)))
   \<and> (build_database (rs1 @ r1 # rs2 @ r2 # rs3) generate_meta = Inr st2
        \<and> row_entry r1 = Some (n, c1) \<and> row_entry r2 = Some (n, c2)
        \<and> list_all (\<lambda>r. map_option fst (row_entry r) \<noteq> Some n) rs3
      \<longrightarrow> category_db st2 n = Some c2)
   \<and> (\<exists>s. build_database rows False = Inr s)
   \<and> (list_all (\<lambda>r. \<not> kcal_is_infinite r) rows
      \<longrightarrow> (\<exists>s. build_database rows generate_meta = Inr s))"
proof -
  have a: "category_db st2 n = Some c2"
    if run: "build_database (rs1 @ r1 # rs2 @ r2 # rs3) generate_meta = Inr st2"
      and e2: "row_entry r2 = Some (n, c2)"
      and later: "list_all (\<lambda>r. map_option fst (row_entry r) \<noteq> Some n) rs3"
  proof -
    have "rs1 @ r1 # rs2 @ r2 # rs3 = (rs1 @ r1 # rs2) @ [r2] @ rs3" by simp
    then have "List.map_filter row_entry (rs1 @ r1 # rs2 @ r2 # rs3) =
        List.map_filter row_entry (rs1 @ r1 # rs2) @ List.map_filter row_entry [r2] @
        List.map_filter row_entry rs3"
      by (simp only: map_filter_app)
    moreover have "List.map_filter row_entry [r2] = [(n, c2)]"
      using e2 by simp
    ultimately have split: "List.map_filter row_entry (rs1 @ r1 # rs2 @ r2 # rs3) =
        List.map_filter row_entry (rs1 @ r1 # rs2) @ (n, c2) # List.map_filter row_entry rs3"
      by simp
    have "\<forall>p \<in> set (List.map_filter row_entry rs3). fst p \<noteq> n"
      using later by (force simp: list_all_iff dest: in_set_map_filter)
    then have "map_of (rev (List.map_filter row_entry (rs1 @ r1 # rs2) @ (n, c2) #
                 List.map_filter row_entry rs3)) n = Some c2"
      by (rule map_of_rev_last_wins)
    with build_database_category_db [OF run] split show ?thesis by simp
  qed
  have b: "\<exists>s. build_database rows False = Inr s"
    using process_rows_no_meta [of "init_state False" KEYWORD_RULES OFF_CATEGORY_MAP rows]
    by (simp add: build_database_def build_database_with_def init_state_def)
  have c: "\<exists>s. build_database rows generate_meta = Inr s"
    if "list_all (\<lambda>r. \<not> kcal_is_infinite r) rows"
    using process_rows_total [OF that, of KEYWORD_RULES OFF_CATEGORY_MAP "init_state generate_meta"]
    by (simp add: build_database_def build_database_with_def)
  from a b c build_database_category_db [of rows generate_meta st] show ?thesis by blast
qed

lemma CAT_get_dairy: "CAT_get ''dairy'' = 6"
  using CAT_nth [of 6] by (simp add: CAT_get_def CATEGORIES_def)

lemma CAT_get_meat: "CAT_get ''meat'' = 1"
  using CAT_nth [of 1] by (simp add: CAT_get_def CATEGORIES_def)

lemma zzz_is_culinary: "is_culinary_ingredient ''zzz'' off_cat tags"
  by (simp add: is_culinary_ingredient_def match_digits5_def isdigit_def skip_words_def)

lemma row_entry_zzz_dairy:
  "row_entry [''product_name'' \<mapsto> ''zzz'', ''main_category_en'' \<mapsto> ''Dairy''] =
     Some (''zzz'', 6)"
proof -
  let ?row = "[''product_name'' \<mapsto> ''zzz'', ''main_category_en'' \<mapsto> ''Dairy'']"
  have n: "row_name ?row = ''zzz''" by code_simp
  have o: "row_off_cat ?row = ''dairy''" by code_simp
  have c: "classify_by_off_category_in OFF_CATEGORY_MAP ''dairy'' = Some ''dairy''"
    unfolding classify_by_off_category_in_def OFF_CATEGORY_MAP_def
    by (simp cong: classify_by_off_category_rules_cong)
  have "resolve_category_with KEYWORD_RULES OFF_CATEGORY_MAP ''zzz'' ''dairy'' (row_tags ?row) =
          Some ''dairy''"
    using classify_by_name_zzz c
    by (simp add: resolve_category_with_def classify_by_name_def)
  then show ?thesis
    by (simp add: row_entry_def row_entry_with_def n o zzz_is_culinary CAT_get_dairy UNKNOWN_eq)
qed

lemma row_entry_zzz_meat:
  "row_entry [''product_name'' \<mapsto> '' ZZZ '', ''main_category_en'' \<mapsto> ''Meats''] =
     Some (''zzz'', 1)"
proof -
  let ?row = "[''product_name'' \<mapsto> '' ZZZ '', ''main_category_en'' \<mapsto> ''Meats'']"
  have n: "row_name ?row = ''zzz''" by code_simp
  have o: "row_off_cat ?row = ''meats''" by code_simp
  have c: "classify_by_off_category_in OFF_CATEGORY_MAP ''meats'' = Some ''meat''"
    unfolding classify_by_off_category_in_def OFF_CATEGORY_MAP_def
    by (simp cong: classify_by_off_category_rules_cong)
  have "resolve_category_with KEYWORD_RULES OFF_CATEGORY_MAP ''zzz'' ''meats'' (row_tags ?row) =
          Some ''meat''"
    using classify_by_name_zzz c
    by (simp add: resolve_category_with_def classify_by_name_def)
  then show ?thesis
    by (simp add: row_entry_def row_entry_with_def n o zzz_is_culinary CAT_get_meat UNKNOWN_eq)
qed

theorem last_write_for_a_name_wins_witness:
  "\<exists>s. build_database
          [[''product_name'' \<mapsto> ''zzz'', ''main_category_en'' \<mapsto> ''Dairy''],
           [''product_name'' \<mapsto> '' ZZZ '', ''main_category_en'' \<mapsto> ''Meats'']] False = Inr s
        \<and> category_db s ''zzz'' = Some 1"
proof -
  let ?r1 = "[''product_name'' \<mapsto> ''zzz'', ''main_category_en'' \<mapsto> ''Dairy'']"
  let ?r2 = "[''product_name'' \<mapsto> '' ZZZ '', ''main_category_en'' \<mapsto> ''Meats'']"
  from last_write_for_a_name_wins [of "[?r1, ?r2]" False]
  obtain s where s: "build_database [?r1, ?r2] False = Inr s" by blast
  then have run: "build_database ([] @ ?r1 # [] @ ?r2 # []) False = Inr s" by simp
  have later: "list_all (\<lambda>r. map_option fst (row_entry r) \<noteq> Some ''zzz'') []" by simp
  from last_write_for_a_name_wins
    [of _ False _ "[]" ?r1 "[]" ?r2 "[]" s "''zzz''" 6 1]
    run row_entry_zzz_dairy row_entry_zzz_meat later
  have "category_db s ''zzz'' = Some 1" by blast
  with s show ?thesis by blast
qed

section \<open>Every target of the tables is a category\<close>

lemma resolve_category_target:
  assumes "resolve_category name off_cat tags = Some c"
  shows "c \<in> set CATEGORIES \<and> c \<noteq> ''unknown''"
  using assms resolve_category_with_Some [of KEYWORD_RULES OFF_CATEGORY_MAP name off_cat tags c]
    keyword_targets_ok off_targets_ok
  by (auto simp: resolve_category_def)

lemma process_row_unclassified_moves:
  assumes "process_row_with kr om st row = Inr st'" and "unclassified st' \<noteq> unclassified st"
  shows "resolve_category_with kr om (row_name row) (row_off_cat row) (row_tags row) = None
         \<or> (\<exists>c. resolve_category_with kr om (row_name row) (row_off_cat row) (row_tags row) = Some c
                \<and> CAT_get c = UNKNOWN)"
  using assms
  by (auto simp: process_row_with_def Let_def split: if_splits option.splits sum.splits)

text \<open>
  C9. Every target of the name table, and every target of the category-field table
  that is not the no-opinion value, is a member of the category list other than
  \<open>unknown\<close>. So the category that a row resolves to is always found in the lookup
  table, at its own position in the list, and its ordinal is not that of \<open>unknown\<close>:
  the fallback branch of the loop body is never taken, and the unclassified counter
  moves only for a row that no source resolves.
\<close>

theorem rule_targets_are_categories:
  "list_all (\<lambda>(keywords, category). category \<in> set CATEGORIES \<and> category \<noteq> ''unknown'')
     KEYWORD_RULES
   \<and> list_all (\<lambda>(keyword, target). case target of None \<Rightarrow> True
         | Some category \<Rightarrow> category \<in> set CATEGORIES \<and> category \<noteq> ''unknown'')
       OFF_CATEGORY_MAP
   \<and> (resolve_category name off_cat tags = Some c
      \<longrightarrow> CAT c = Some (CAT_get c) \<and> CATEGORIES ! CAT_get c = c \<and> CAT_get c \<noteq> UNKNOWN)
   \<and> (process_row st row = Inr st' \<and> unclassified st' \<noteq> unclassified st
      \<longrightarrow> resolve_category (row_name row) (row_off_cat row) (row_tags row) = None)"
proof -
  have a: "list_all (\<lambda>(keywords, category). category \<in> set CATEGORIES \<and> category \<noteq> ''unknown'')
             KEYWORD_RULES"
    using keyword_targets_ok by (auto simp: list_all_iff)
  have b: "list_all (\<lambda>(keyword, target). case target of None \<Rightarrow> True
             | Some category \<Rightarrow> category \<in> set CATEGORIES \<and> category \<noteq> ''unknown'')
           OFF_CATEGORY_MAP"
    using off_targets_ok by (fastforce simp: list_all_iff split: option.splits)
  have c: "CAT c = Some (CAT_get c) \<and> CATEGORIES ! CAT_get c = c \<and> CAT_get c \<noteq> UNKNOWN"
    if "resolve_category name off_cat tags = Some c"
    using resolve_category_target [OF that] CAT_get_category [of c] by blast
  have d: "resolve_category (row_name row) (row_off_cat row) (row_tags row) = None"
    if run: "process_row st row = Inr st'" and mv: "unclassified st' \<noteq> unclassified st"
  proof (rule ccontr)
    assume "resolve_category (row_name row) (row_off_cat row) (row_tags row) \<noteq> None"
    then obtain k where k: "resolve_category (row_name row) (row_off_cat row) (row_tags row) = Some k"
      by blast
    then have "CAT_get k \<noteq> UNKNOWN"
      using resolve_category_target [OF k] CAT_get_category [of k] by blast
    moreover from run mv k have "CAT_get k = UNKNOWN"
      using process_row_unclassified_moves [of KEYWORD_RULES OFF_CATEGORY_MAP st row st']
      by (auto simp: process_row_def resolve_category_def)
    ultimately show False by simp
  qed
  from a b c d show ?thesis by blast
qed

lemma classify_by_name_chicken_stock: "classify_by_name ''chicken stock'' = Some ''pantry''"
  unfolding classify_by_name_def KEYWORD_RULES_def
  by (simp cong: classify_by_name_rules_cong)

theorem rule_targets_are_categories_witness:
  "resolve_category ''chicken stock'' [] [] = Some ''pantry''
   \<and> CAT ''pantry'' = Some (CAT_get ''pantry'') \<and> CATEGORIES ! CAT_get ''pantry'' = ''pantry''
   \<and> CAT_get ''pantry'' \<noteq> UNKNOWN"
proof -
  have r: "resolve_category ''chicken stock'' [] [] = Some ''pantry''"
    using classify_by_name_chicken_stock
    by (simp add: resolve_category_def resolve_category_with_def classify_by_name_def)
  with rule_targets_are_categories [of "''chicken stock''" "[]" "[]" "''pantry''"]
  show ?thesis by blast
qed

section \<open>An infinite energy value\<close>

lemma py_float_inf: "py_float ''inf'' = Inr PInf"
  by code_simp

text \<open>
  C7. The claim: a malformed numeric field is left out of the record's metadata and
  neither the record nor the run is aborted. The energy field \<open>inf\<close> is read by
  \<^verbatim>\<open>float\<close> as an infinity; \<^verbatim>\<open>round\<close> then raises \<^verbatim>\<open>OverflowError\<close>, which the
  handler for \<^verbatim>\<open>ValueError\<close> does not catch, and the run ends with that exception.
\<close>

theorem infinite_energy_aborts_run:
  "build_database
     [[''product_name'' \<mapsto> ''Chicken Stock'', ''energy-kcal_100g'' \<mapsto> ''inf'']] True
   = Inl OverflowError"
proof -
  let ?row = "[''product_name'' \<mapsto> ''Chicken Stock'', ''energy-kcal_100g'' \<mapsto> ''inf'']"
  have n: "row_name ?row = ''chicken stock''" by code_simp
  have o: "row_off_cat ?row = []" and t: "row_tags ?row = []" by code_simp+
  have l: "2 \<le> length (row_name ?row)" by (simp add: n)
  have i: "is_culinary_ingredient (row_name ?row) (row_off_cat ?row) (row_tags ?row)"
    unfolding n o t
    by (simp add: is_culinary_ingredient_def match_digits5_def isdigit_def skip_words_def)
  have r: "resolve_category_with KEYWORD_RULES OFF_CATEGORY_MAP (row_name ?row)
             (row_off_cat ?row) (row_tags ?row) = Some ''pantry''"
    unfolding n o t using classify_by_name_chicken_stock
    by (simp add: resolve_category_with_def classify_by_name_def)
  have "''pantry'' \<in> set CATEGORIES" by (simp add: CATEGORIES_def)
  then have u: "CAT_get ''pantry'' \<noteq> UNKNOWN" using CAT_get_category by blast
  have "row_get ?row ''energy-kcal_100g'' = ''inf''" by (simp add: row_get_def)
  then have "kcal_is_infinite ?row" by (simp add: kcal_is_infinite_def py_float_inf)
  then have m: "build_meta ?row (CAT_get ''pantry'') = Inl OverflowError"
    using build_meta_Inl [of ?row "CAT_get ''pantry''" OverflowError] by simp
  have "process_row_with KEYWORD_RULES OFF_CATEGORY_MAP (init_state True) ?row =
          Inl OverflowError"
    unfolding process_row_classified [OF l i r u] by (simp add: init_state_def m)
  then show ?thesis
    by (simp add: build_database_def build_database_with_def)
qed

section \<open>What the metadata holds when it is built\<close>

lemma round_half_even_near: "\<bar>of_int (round_half_even q) - q\<bar> \<le> 1 / 2"
proof -
  define d where "d = q - of_int \<lfloor>q\<rfloor>"
  have lo: "0 \<le> d" and hi: "d < 1" unfolding d_def by linarith+
  have q: "q = of_int \<lfloor>q\<rfloor> + d" by (simp add: d_def)
  consider "d < 1 / 2" | "1 / 2 < d" | "d = 1 / 2" by linarith
  then show ?thesis
  proof cases
    case 1
    then have "round_half_even q = \<lfloor>q\<rfloor>"
      by (simp add: round_half_even_def d_def Let_def)
    with 1 lo show ?thesis by (simp add: d_def)
  next
    case 2
    then have "round_half_even q = \<lfloor>q\<rfloor> + 1"
      by (simp add: round_half_even_def d_def Let_def)
    moreover have "\<bar>of_int (\<lfloor>q\<rfloor> + 1) - q\<bar> = 1 - d"
      using hi by (simp add: d_def)
    ultimately show ?thesis using 2 by simp
  next
    case 3
    then have "round_half_even q = \<lfloor>q\<rfloor> \<or> round_half_even q = \<lfloor>q\<rfloor> + 1"
      by (simp add: round_half_even_def d_def Let_def)
    moreover have "\<bar>of_int \<lfloor>q\<rfloor> - q\<bar> = d" using lo by (simp add: d_def)
    moreover have "\<bar>of_int (\<lfloor>q\<rfloor> + 1) - q\<bar> = 1 - d" using hi by (simp add: d_def)
    ultimately show ?thesis using 3 by auto
  qed
qed

lemma unreadable_field_is_dropped:
  assumes "py_float s = Inl ValueError"
  shows "kcal_field s = Inr None" and "decimal_field ndigits s = Inr None"
  using assms by (simp_all add: kcal_field_def decimal_field_def except_ValueError_def)

lemma nan_energy_is_dropped: "py_float s = Inr NaN \<Longrightarrow> kcal_field s = Inr None"
  by (simp add: kcal_field_def except_ValueError_def py_round_def)

lemma kcal_field_finite:
  assumes "s \<noteq> []" and "py_float s = Inr (Finite q)"
  shows "kcal_field s = Inr (Some (round_half_even q))"
  using assms by (simp add: kcal_field_def except_ValueError_def py_round_def)

lemma decimal_field_value:
  assumes "s \<noteq> []" and "py_float s = Inr x"
  shows "decimal_field ndigits s = Inr (Some (py_round_ndigits x ndigits))"
  using assms by (simp add: decimal_field_def except_ValueError_def)

lemma build_meta_fields:
  assumes "build_meta row i = Inr m"
  shows "cat m = i"
    and "kcal_field (row_get row ''energy-kcal_100g'') = Inr (kcal m)"
    and "decimal_field 1 (row_get row ''proteins_100g'') = Inr (protein m)"
    and "decimal_field 1 (row_get row ''carbohydrates_100g'') = Inr (carbs m)"
    and "decimal_field 1 (row_get row ''fat_100g'') = Inr (fat m)"
    and "decimal_field 1 (row_get row ''fiber_100g'') = Inr (fiber m)"
    and "decimal_field 3 (row_get row ''sodium_100g'') = Inr (sodium m)"
  using assms by (auto simp: build_meta_def Let_def split: sum.splits)

lemma vegan_takes_precedence:
  assumes "build_meta row i = Inr m"
    and "str_in ''vegan'' (lower (row_get row ''labels_en''))"
  shows "vegan m = Some True \<and> vegetarian m = None"
  using assms by (auto simp: build_meta_def Let_def split: sum.splits)

lemma vegetarian_without_vegan:
  assumes "build_meta row i = Inr m"
    and "\<not> str_in ''vegan'' (lower (row_get row ''labels_en''))"
  shows "vegan m = None
         \<and> vegetarian m = (if str_in ''vegetarian'' (lower (row_get row ''labels_en''))
                            then Some True else None)"
  using assms by (auto simp: build_meta_def Let_def split: sum.splits)

end
